theory Spec2Isabelle
  imports Complex_Main "HOL-Library.Word"
begin

section \<open>Strings, numbers and JSON values\<close>

text \<open>
  A JavaScript string is a sequence of UTF-16 code units; \<open>length\<close> counts code units,
  as \<^verbatim>\<open>content.length\<close> does. String literals of the source are written with \<open>js\<close>.
  A JavaScript number that the code only stores and compares is a rational.
\<close>

type_synonym jsstring = "16 word list"

type_synonym number = rat

definition js :: "string \<Rightarrow> jsstring" where
  "js s = map of_char s"

text \<open>The code units removed by \<^verbatim>\<open>String.prototype.trim\<close>: WhiteSpace and LineTerminator.\<close>

definition is_ws :: "16 word \<Rightarrow> bool" where
  "is_ws c =
     (c = 0x9 \<or> c = 0xA \<or> c = 0xB \<or> c = 0xC \<or> c = 0xD \<or> c = 0x20 \<or> c = 0xA0
      \<or> c = 0x1680 \<or> (0x2000 \<le> c \<and> c \<le> 0x200A) \<or> c = 0x2028 \<or> c = 0x2029
      \<or> c = 0x202F \<or> c = 0x205F \<or> c = 0x3000 \<or> c = 0xFEFF)"

definition trim :: "jsstring \<Rightarrow> jsstring" where
  "trim s = rev (dropWhile is_ws (rev (dropWhile is_ws s)))"

text \<open>\<^verbatim>\<open>s.split(sep)\<close> for a separator of one code unit, and \<^verbatim>\<open>xs.join(sep)\<close>.\<close>

fun split_on :: "16 word \<Rightarrow> jsstring \<Rightarrow> jsstring list" where
  "split_on sep [] = [[]]"
| "split_on sep (c # cs) =
     (if c = sep then [] # split_on sep cs
      else (case split_on sep cs of
              [] \<Rightarrow> [[c]]
            | p # ps \<Rightarrow> (c # p) # ps))"

fun join :: "jsstring \<Rightarrow> jsstring list \<Rightarrow> jsstring" where
  "join sep [] = []"
| "join sep [x] = x"
| "join sep (x # y # ys) = x @ sep @ join sep (y # ys)"

text \<open>\<^verbatim>\<open>`${n}`\<close> for a non-negative integer below \<open>10^21\<close>: its decimal digits.\<close>

fun decimal :: "nat \<Rightarrow> jsstring" where
  "decimal n =
     (if n < 10 then [of_nat (48 + n)]
      else decimal (n div 10) @ [of_nat (48 + n mod 10)])"

declare decimal.simps [simp del]

text \<open>
  What \<^verbatim>\<open>JSON.parse\<close> returns. An object is the list of its properties in order; a
  property that holds \<^verbatim>\<open>undefined\<close> is absent, which is how \<^verbatim>\<open>JSON.stringify\<close>,
  \<^verbatim>\<open>?.\<close> and \<^verbatim>\<open>||\<close> see it.
\<close>

datatype json =
    JNull
  | JBool bool
  | JNum number
  | JStr jsstring
  | JArr "json list"
  | JObj "(jsstring \<times> json) list"

text \<open>\<^verbatim>\<open>v.k\<close> and \<^verbatim>\<open>v?.k\<close>. Reading a property of \<^verbatim>\<open>null\<close> with \<^verbatim>\<open>.\<close> throws a TypeError.\<close>

datatype 'a thrown = Threw | Returned 'a

fun get_prop :: "json \<Rightarrow> string \<Rightarrow> json option thrown" where
  "get_prop JNull k = Threw"
| "get_prop (JObj kvs) k = Returned (map_of kvs (js k))"
| "get_prop v k = Returned None"

fun opt_prop :: "json option \<Rightarrow> string \<Rightarrow> json option" where
  "opt_prop (Some (JObj kvs)) k = map_of kvs (js k)"
| "opt_prop v k = None"

text \<open>JavaScript truthiness of a value that may be \<^verbatim>\<open>undefined\<close>.\<close>

fun truthy :: "json option \<Rightarrow> bool" where
  "truthy None = False"
| "truthy (Some JNull) = False"
| "truthy (Some (JBool b)) = b"
| "truthy (Some (JNum n)) = (n \<noteq> 0)"
| "truthy (Some (JStr s)) = (s \<noteq> [])"
| "truthy (Some (JArr xs)) = True"
| "truthy (Some (JObj kvs)) = True"

fun isArray :: "json option \<Rightarrow> bool" where
  "isArray (Some (JArr xs)) = True"
| "isArray v = False"

section \<open>The data model of the chat store\<close>

datatype MessageRole = User | Assistant | System

record Message =
  msg_id :: jsstring
  role :: MessageRole
  content :: jsstring
  timestamp :: number
  metadata :: "json option"
  msg_isLoading :: "bool option"
  msg_error :: "jsstring option"

record ChatSession =
  session_id :: jsstring
  messages :: "Message list"
  created_at :: number
  updated_at :: number
  title :: "jsstring option"
  location :: "jsstring option"

record ChatState =
  currentSession :: "ChatSession option"
  sessions :: "ChatSession list"
  isLoading :: bool
  error :: "jsstring option"
  isConnected :: bool

text \<open>\<^verbatim>\<open>Partial<Message>\<close> and \<^verbatim>\<open>Partial<ChatSession>\<close>: \<open>None\<close> is a key that is not there.\<close>

record MessageUpdates =
  u_id :: "jsstring option"
  u_role :: "MessageRole option"
  u_content :: "jsstring option"
  u_timestamp :: "number option"
  u_metadata :: "json option"
  u_isLoading :: "bool option"
  u_error :: "jsstring option"

record SessionUpdates =
  su_id :: "jsstring option"
  su_messages :: "Message list option"
  su_created_at :: "number option"
  su_updated_at :: "number option"
  su_title :: "jsstring option"
  su_location :: "jsstring option"

definition no_updates :: MessageUpdates where
  "no_updates = \<lparr>u_id = None, u_role = None, u_content = None, u_timestamp = None,
     u_metadata = None, u_isLoading = None, u_error = None\<rparr>"

definition no_session_updates :: SessionUpdates where
  "no_session_updates = \<lparr>su_id = None, su_messages = None, su_created_at = None,
     su_updated_at = None, su_title = None, su_location = None\<rparr>"

text \<open>The object spread \<^verbatim>\<open>{ ...m, ...updates }\<close>.\<close>

definition or_else :: "'a option \<Rightarrow> 'a \<Rightarrow> 'a" where
  "or_else x d = (case x of None \<Rightarrow> d | Some v \<Rightarrow> v)"

definition or_keep :: "'a option \<Rightarrow> 'a option \<Rightarrow> 'a option" where
  "or_keep x d = (case x of None \<Rightarrow> d | Some v \<Rightarrow> Some v)"

definition spread_message :: "Message \<Rightarrow> MessageUpdates \<Rightarrow> Message" where
  "spread_message m u =
     \<lparr>msg_id = or_else (u_id u) (msg_id m),
      role = or_else (u_role u) (role m),
      content = or_else (u_content u) (content m),
      timestamp = or_else (u_timestamp u) (timestamp m),
      metadata = or_keep (u_metadata u) (metadata m),
      msg_isLoading = or_keep (u_isLoading u) (msg_isLoading m),
      msg_error = or_keep (u_error u) (msg_error m)\<rparr>"

definition spread_session :: "ChatSession \<Rightarrow> SessionUpdates \<Rightarrow> ChatSession" where
  "spread_session x u =
     \<lparr>session_id = or_else (su_id u) (session_id x),
      messages = or_else (su_messages u) (messages x),
      created_at = or_else (su_created_at u) (created_at x),
      updated_at = or_else (su_updated_at u) (updated_at x),
      title = or_keep (su_title u) (title x),
      location = or_keep (su_location u) (location x)\<rparr>"

section \<open>The clock and the random source\<close>

text \<open>
  \<^verbatim>\<open>Date.now()\<close> and \<^verbatim>\<open>Math.random().toString(36).substring(2, 11)\<close> are inputs:
  the world gives the value of every call in order and counts the calls made so far.
\<close>

record world =
  clock :: "nat \<Rightarrow> nat"
  random :: "nat \<Rightarrow> jsstring"
  clock_reads :: nat
  random_reads :: nat

definition Date_now :: "world \<Rightarrow> nat \<times> world" where
  "Date_now w = (clock w (clock_reads w), w\<lparr>clock_reads := Suc (clock_reads w)\<rparr>)"

definition Math_random36 :: "world \<Rightarrow> jsstring \<times> world" where
  "Math_random36 w = (random w (random_reads w), w\<lparr>random_reads := Suc (random_reads w)\<rparr>)"

definition generateId :: "world \<Rightarrow> jsstring \<times> world" where
  "generateId w =
     (let (t, w1) = Date_now w;
          (r, w2) = Math_random36 w1
      in (decimal t @ js ''-'' @ r, w2))"

section \<open>The chat store\<close>

text \<open>The store as \<^verbatim>\<open>create\<close> builds it.\<close>

definition initial_state :: ChatState where
  "initial_state =
     \<lparr>currentSession = None, sessions = [], isLoading = False, error = None,
      isConnected = True\<rparr>"

definition generateSessionTitle :: "jsstring \<Rightarrow> jsstring" where
  "generateSessionTitle firstMessage =
     (let trimmed = trim firstMessage in
      if trimmed = [] then js ''New Chat''
      else
        (let wordz = take 6 (split_on 0x20 trimmed);
             t = join (js '' '') wordz
         in if length t < length trimmed then t @ js ''...'' else t))"

definition validateMessage :: "jsstring \<Rightarrow> jsstring option" where
  "validateMessage c =
     (if trim c = [] then Some (js ''Message cannot be empty'')
      else if length c > 10000 then Some (js ''Message too long (max 10000 characters)'')
      else None)"

fun findIndex :: "('a \<Rightarrow> bool) \<Rightarrow> 'a list \<Rightarrow> nat option" where
  "findIndex P [] = None"
| "findIndex P (x # xs) = (if P x then Some 0 else map_option Suc (findIndex P xs))"

definition updateSessionInArray ::
  "ChatSession list \<Rightarrow> jsstring \<Rightarrow> SessionUpdates \<Rightarrow> ChatSession list" where
  "updateSessionInArray ss sessionId updates =
     (case findIndex (\<lambda>s. session_id s = sessionId) ss of
        None \<Rightarrow> ss
      | Some i \<Rightarrow> ss[i := spread_session (ss ! i) updates])"

definition createSession :: "world \<Rightarrow> ChatState \<Rightarrow> world \<times> ChatState" where
  "createSession w s =
     (let s1 = s\<lparr>isLoading := True, error := None\<rparr>;
          (i, w1) = generateId w;
          (c, w2) = Date_now w1;
          (u, w3) = Date_now w2;
          newSession = \<lparr>session_id = i, messages = [], created_at = of_nat c,
                        updated_at = of_nat u, title = None, location = None\<rparr>
      in (w3, s1\<lparr>currentSession := Some newSession,
                 sessions := newSession # sessions s1,
                 isLoading := False\<rparr>))"

definition clearCurrentSession :: "ChatState \<Rightarrow> ChatState" where
  "clearCurrentSession s = s\<lparr>currentSession := None, error := None\<rparr>"

definition deleteSession :: "jsstring \<Rightarrow> ChatState \<Rightarrow> ChatState" where
  "deleteSession sessionId s =
     (let s1 = s\<lparr>sessions := filter (\<lambda>x. session_id x \<noteq> sessionId) (sessions s)\<rparr>
      in (case currentSession s1 of
            None \<Rightarrow> s1
          | Some cs \<Rightarrow> if session_id cs = sessionId then s1\<lparr>currentSession := None\<rparr> else s1))"

text \<open>
  \<^verbatim>\<open>addMessage\<close> is typed to take a message without \<^verbatim>\<open>id\<close> and \<^verbatim>\<open>timestamp\<close>, but
  the spread \<^verbatim>\<open>{ id: generateId(), timestamp: Date.now(), ...messageData }\<close> lets the
  argument's own \<^verbatim>\<open>id\<close> and \<^verbatim>\<open>timestamp\<close> win when it has them, as the complete messages
  passed by \<^verbatim>\<open>sendMessage\<close> and \<^verbatim>\<open>streamMessage\<close> do.
\<close>

record MessageData =
  d_id :: "jsstring option"
  d_timestamp :: "number option"
  d_role :: MessageRole
  d_content :: jsstring
  d_metadata :: "json option"
  d_isLoading :: "bool option"
  d_error :: "jsstring option"

definition data_of :: "Message \<Rightarrow> MessageData" where
  "data_of m =
     \<lparr>d_id = Some (msg_id m), d_timestamp = Some (timestamp m), d_role = role m,
      d_content = content m, d_metadata = metadata m, d_isLoading = msg_isLoading m,
      d_error = msg_error m\<rparr>"

definition addMessage :: "MessageData \<Rightarrow> world \<Rightarrow> ChatState \<Rightarrow> world \<times> ChatState" where
  "addMessage messageData w s =
     (let (i, w1) = generateId w;
          (t, w2) = Date_now w1;
          message = \<lparr>msg_id = or_else (d_id messageData) i,
                     role = d_role messageData,
                     content = d_content messageData,
                     timestamp = or_else (d_timestamp messageData) (of_nat t),
                     metadata = d_metadata messageData,
                     msg_isLoading = d_isLoading messageData,
                     msg_error = d_error messageData\<rparr>
      in (case currentSession s of
            None \<Rightarrow> (w2, s)
          | Some cs \<Rightarrow>
              (let msgs = messages cs @ [message];
                   (u1, w3) = Date_now w2;
                   (u2, w4) = Date_now w3;
                   cs' = cs\<lparr>messages := msgs, updated_at := of_nat u1\<rparr>
               in (w4, s\<lparr>currentSession := Some cs',
                          sessions := updateSessionInArray (sessions s) (session_id cs')
                            (no_session_updates\<lparr>su_messages := Some msgs,
                                                 su_updated_at := Some (of_nat u2)\<rparr>)\<rparr>))))"

definition updateMessage :: "jsstring \<Rightarrow> MessageUpdates \<Rightarrow> ChatState \<Rightarrow> ChatState" where
  "updateMessage messageId updates s =
     (case currentSession s of
        None \<Rightarrow> s
      | Some cs \<Rightarrow>
          (case findIndex (\<lambda>m. msg_id m = messageId) (messages cs) of
             None \<Rightarrow> s
           | Some messageIndex \<Rightarrow>
               (let msgs = (messages cs)
                      [messageIndex := spread_message (messages cs ! messageIndex) updates]
                in s\<lparr>currentSession := Some (cs\<lparr>messages := msgs\<rparr>),
                     sessions := updateSessionInArray (sessions s) (session_id cs)
                       (no_session_updates\<lparr>su_messages := Some msgs\<rparr>)\<rparr>)))"

definition deleteMessage :: "jsstring \<Rightarrow> ChatState \<Rightarrow> ChatState" where
  "deleteMessage messageId s =
     (case currentSession s of
        None \<Rightarrow> s
      | Some cs \<Rightarrow>
          (let msgs = filter (\<lambda>m. msg_id m \<noteq> messageId) (messages cs)
           in s\<lparr>currentSession := Some (cs\<lparr>messages := msgs\<rparr>),
                sessions := updateSessionInArray (sessions s) (session_id cs)
                  (no_session_updates\<lparr>su_messages := Some msgs\<rparr>)\<rparr>))"

definition setLoading :: "bool \<Rightarrow> ChatState \<Rightarrow> ChatState" where
  "setLoading b s = s\<lparr>isLoading := b\<rparr>"

definition setError :: "jsstring option \<Rightarrow> ChatState \<Rightarrow> ChatState" where
  "setError e s = s\<lparr>error := e\<rparr>"

definition setConnected :: "bool \<Rightarrow> ChatState \<Rightarrow> ChatState" where
  "setConnected b s = s\<lparr>isConnected := b\<rparr>"

definition clearError :: "ChatState \<Rightarrow> ChatState" where
  "clearError s = s\<lparr>error := None\<rparr>"

definition clearAllSessions :: "ChatState \<Rightarrow> ChatState" where
  "clearAllSessions s = s\<lparr>sessions := [], currentSession := None, error := None\<rparr>"

subsection \<open>The transport, as the store sees it\<close>

record ChatQuery =
  q_text :: jsstring
  q_location :: "jsstring option"
  q_session_id :: "jsstring option"

record SendMessageOptions =
  o_location :: "jsstring option"
  o_sessionId :: "jsstring option"
  o_streaming :: "bool option"

definition no_options :: SendMessageOptions where
  "no_options = \<lparr>o_location = None, o_sessionId = None, o_streaming = None\<rparr>"

record ContextSource =
  src_id :: jsstring
  src_title :: jsstring
  src_content :: jsstring
  src_relevance_score :: number
  src_source_type :: jsstring
  src_metadata :: "json option"

record ChatResponse =
  r_query :: jsstring
  r_response :: jsstring
  r_confidence_score :: number
  r_risk_assessment :: json
  r_context_sources :: "ContextSource list option"
  r_processing_time :: "number option"
  r_session_id :: "jsstring option"
  r_timestamp :: "number option"

text \<open>
  How an awaited call of the transport ends: it resolves, or it rejects with an
  \<^verbatim>\<open>APIError\<close> carrying a message, or with something that is not an \<^verbatim>\<open>APIError\<close>.
\<close>

datatype 'a settled = Resolved 'a | Rejected_APIError jsstring | Rejected_other

subsection \<open>sendMessage and streamMessage\<close>

text \<open>
  Both functions start with the same statements: validation, making sure there is a
  current session, appending the user message and the assistant placeholder, raising the
  global loading flag and building the query. \<open>start_exchange\<close> is that common part; it
  either returns early (\<open>Stopped\<close>) or reaches the network call (\<open>Awaiting\<close>, with the
  query and the placeholder's id).
\<close>

datatype started =
    Stopped world ChatState
  | Awaiting world ChatState ChatQuery jsstring

definition start_exchange :: "jsstring \<Rightarrow> SendMessageOptions \<Rightarrow> world \<Rightarrow> ChatState \<Rightarrow> started" where
  "start_exchange c options w s =
     (case validateMessage c of
        Some validation \<Rightarrow> Stopped w (s\<lparr>error := Some validation\<rparr>)
      | None \<Rightarrow>
          (let (w1, s1) = (case currentSession s of
                             None \<Rightarrow> createSession w s
                           | Some cs \<Rightarrow> (w, s))
           in (case currentSession s1 of
                 None \<Rightarrow> Stopped w1 (s1\<lparr>error := Some (js ''Failed to create session'')\<rparr>)
               | Some cs \<Rightarrow>
                   (let (uid, w2) = generateId w1;
                        (utime, w3) = Date_now w2;
                        userMessage = \<lparr>msg_id = uid, role = User, content = trim c,
                                         timestamp = of_nat utime, metadata = None,
                                         msg_isLoading = None, msg_error = None\<rparr>;
                        (assistantMessageId, w4) = generateId w3;
                        (atime, w5) = Date_now w4;
                        assistantMessage = \<lparr>msg_id = assistantMessageId, role = Assistant,
                                              content = [], timestamp = of_nat atime,
                                              metadata = None, msg_isLoading = Some True,
                                              msg_error = None\<rparr>;
                        (w6, s2) = addMessage (data_of userMessage) w5 s1;
                        (w7, s3) = addMessage (data_of assistantMessage) w6 s2;
                        s4 = s3\<lparr>isLoading := True, error := None\<rparr>;
                        query = \<lparr>q_text = c, q_location = o_location options,
                                   q_session_id = Some (session_id cs)\<rparr>
                    in Awaiting w7 s4 query assistantMessageId))))"

definition source_summary :: "ContextSource \<Rightarrow> json" where
  "source_summary src =
     JObj [(js ''id'', JStr (src_id src)),
           (js ''title'', JStr (src_title src)),
           (js ''relevance_score'', JNum (src_relevance_score src))]"

definition response_metadata :: "ChatResponse \<Rightarrow> json" where
  "response_metadata r =
     JObj ([(js ''confidence_score'', JNum (r_confidence_score r)),
            (js ''risk_assessment'', r_risk_assessment r)]
           @ (case r_context_sources r of
                None \<Rightarrow> []
              | Some srcs \<Rightarrow> [(js ''context_sources'', JArr (map source_summary srcs))])
           @ (case r_processing_time r of
                None \<Rightarrow> []
              | Some t \<Rightarrow> [(js ''processing_time'', JNum t)]))"

text \<open>What \<^verbatim>\<open>sendMessage\<close> does once \<^verbatim>\<open>apiClient.sendChatMessage\<close> has settled.\<close>

definition sendMessage_settle ::
  "ChatResponse settled \<Rightarrow> jsstring \<Rightarrow> jsstring \<Rightarrow> world \<Rightarrow> ChatState \<Rightarrow> world \<times> ChatState" where
  "sendMessage_settle outcome c assistantMessageId w s =
     (let (w', s') =
        (case outcome of
           Resolved response \<Rightarrow>
             (let s1 = updateMessage assistantMessageId
                         (no_updates\<lparr>u_content := Some (r_response response),
                                      u_isLoading := Some False,
                                      u_metadata := Some (response_metadata response)\<rparr>) s
              in (case currentSession s1 of
                    None \<Rightarrow> (w, s1)
                  | Some session \<Rightarrow>
                      if length (filter (\<lambda>m. role m = User) (messages session)) = 1
                      then
                        (let t = generateSessionTitle c;
                             (u1, w1) = Date_now w;
                             (u2, w2) = Date_now w1
                         in (w2, s1\<lparr>currentSession :=
                                      Some (session\<lparr>title := Some t, updated_at := of_nat u1\<rparr>),
                                    sessions := updateSessionInArray (sessions s1)
                                      (session_id session)
                                      (no_session_updates\<lparr>su_title := Some t,
                                         su_updated_at := Some (of_nat u2)\<rparr>)\<rparr>))
                      else (w, s1)))
         | Rejected_APIError message \<Rightarrow>
             (w, (updateMessage assistantMessageId
                    (no_updates\<lparr>u_content :=
                                   Some (js ''Sorry, I encountered an error. Please try again.''),
                                 u_isLoading := Some False,
                                 u_error := Some message\<rparr>) s)
                 \<lparr>error := Some message\<rparr>)
         | Rejected_other \<Rightarrow>
             (w, (updateMessage assistantMessageId
                    (no_updates\<lparr>u_content :=
                                   Some (js ''Sorry, I encountered an error. Please try again.''),
                                 u_isLoading := Some False,
                                 u_error := Some (js ''Failed to send message'')\<rparr>) s)
                 \<lparr>error := Some (js ''Failed to send message'')\<rparr>))
      in (w', s'\<lparr>isLoading := False\<rparr>))"

text \<open>
  A whole call with nothing interleaved at its suspension points. The transport is the
  function \<open>api\<close> from the query to how the request settles; the third component of the
  result lists the requests that were issued.
\<close>

definition sendMessage ::
  "(ChatQuery \<Rightarrow> ChatResponse settled) \<Rightarrow> jsstring \<Rightarrow> SendMessageOptions \<Rightarrow> world \<Rightarrow> ChatState
     \<Rightarrow> world \<times> ChatState \<times> ChatQuery list" where
  "sendMessage api c options w s =
     (case start_exchange c options w s of
        Stopped w1 s1 \<Rightarrow> (w1, s1, [])
      | Awaiting w1 s1 query assistantMessageId \<Rightarrow>
          (let (w2, s2) = sendMessage_settle (api query) c assistantMessageId w1 s1
           in (w2, s2, [query])))"

text \<open>
  The four callbacks that \<^verbatim>\<open>streamMessage\<close> hands to \<^verbatim>\<open>apiClient.streamChatMessage\<close>,
  in the order of its parameters. They share the variable \<^verbatim>\<open>accumulatedContent\<close>, so a
  callback maps that variable and the store to their new values. A stream event is one
  invocation of a callback by the transport.
\<close>

datatype stream_event =
    Chunk jsstring
  | Metadata json
  | StreamError jsstring
  | Complete

fun stream_callback :: "jsstring \<Rightarrow> stream_event \<Rightarrow> jsstring \<times> ChatState \<Rightarrow> jsstring \<times> ChatState" where
  "stream_callback assistantMessageId (Chunk chunk) (accumulatedContent, s) =
     (let acc = accumulatedContent @ chunk
      in (acc, updateMessage assistantMessageId
                 (no_updates\<lparr>u_content := Some acc, u_isLoading := Some True\<rparr>) s))"
| "stream_callback assistantMessageId (Metadata md) (accumulatedContent, s) =
     (accumulatedContent,
      updateMessage assistantMessageId (no_updates\<lparr>u_metadata := Some md\<rparr>) s)"
| "stream_callback assistantMessageId (StreamError e) (accumulatedContent, s) =
     (accumulatedContent,
      (updateMessage assistantMessageId
         (no_updates\<lparr>u_content :=
                        Some (if accumulatedContent \<noteq> [] then accumulatedContent
                              else js ''Sorry, I encountered an error.''),
                      u_isLoading := Some False,
                      u_error := Some e\<rparr>) s)
      \<lparr>error := Some e, isLoading := False\<rparr>)"
| "stream_callback assistantMessageId Complete (accumulatedContent, s) =
     (accumulatedContent,
      (updateMessage assistantMessageId (no_updates\<lparr>u_isLoading := Some False\<rparr>) s)
      \<lparr>isLoading := False\<rparr>)"

text \<open>
  The store after the transport has made the invocations \<open>events\<close>, in order, starting
  from an empty \<^verbatim>\<open>accumulatedContent\<close>.
\<close>

definition stream_events :: "jsstring \<Rightarrow> stream_event list \<Rightarrow> ChatState \<Rightarrow> jsstring \<times> ChatState" where
  "stream_events assistantMessageId events s =
     fold (stream_callback assistantMessageId) events ([], s)"

text \<open>
  What \<^verbatim>\<open>streamMessage\<close> does from the call of \<^verbatim>\<open>apiClient.streamChatMessage\<close> on: the
  transport makes its callback invocations and then its promise settles; a rejection
  is handled by the \<^verbatim>\<open>catch\<close> block.
\<close>

definition streamMessage_settle ::
  "stream_event list \<times> unit settled \<Rightarrow> jsstring \<Rightarrow> ChatState \<Rightarrow> ChatState" where
  "streamMessage_settle run assistantMessageId s =
     (let (acc, s1) = stream_events assistantMessageId (fst run) s
      in (case snd run of
            Resolved u \<Rightarrow> s1
          | Rejected_APIError message \<Rightarrow>
              (updateMessage assistantMessageId
                 (no_updates\<lparr>u_content :=
                                Some (js ''Sorry, I encountered an error. Please try again.''),
                              u_isLoading := Some False,
                              u_error := Some message\<rparr>) s1)
              \<lparr>error := Some message, isLoading := False\<rparr>
          | Rejected_other \<Rightarrow>
              (updateMessage assistantMessageId
                 (no_updates\<lparr>u_content :=
                                Some (js ''Sorry, I encountered an error. Please try again.''),
                              u_isLoading := Some False,
                              u_error := Some (js ''Failed to stream message'')\<rparr>) s1)
              \<lparr>error := Some (js ''Failed to stream message''), isLoading := False\<rparr>))"

definition streamMessage ::
  "(ChatQuery \<Rightarrow> stream_event list \<times> unit settled) \<Rightarrow> jsstring \<Rightarrow> SendMessageOptions \<Rightarrow> world
     \<Rightarrow> ChatState \<Rightarrow> world \<times> ChatState \<times> ChatQuery list" where
  "streamMessage api c options w s =
     (case start_exchange c options w s of
        Stopped w1 s1 \<Rightarrow> (w1, s1, [])
      | Awaiting w1 s1 query assistantMessageId \<Rightarrow>
          (w1, streamMessage_settle (api query) assistantMessageId s1, [query]))"

subsection \<open>retryLastMessage\<close>

definition retryLastMessage ::
  "(ChatQuery \<Rightarrow> ChatResponse settled) \<Rightarrow> world \<Rightarrow> ChatState
     \<Rightarrow> world \<times> ChatState \<times> ChatQuery list" where
  "retryLastMessage api w s =
     (case currentSession s of
        None \<Rightarrow> (w, s, [])
      | Some cs \<Rightarrow>
          if length (messages cs) < 2 then (w, s, [])
          else
            (case find (\<lambda>m. role m = User) (rev (messages cs)) of
               None \<Rightarrow> (w, s, [])
             | Some lastUserMessage \<Rightarrow>
                 (let lastMessage = last (messages cs);
                      s1 = (if role lastMessage = Assistant
                               \<and> ((case msg_error lastMessage of
                                      None \<Rightarrow> False
                                    | Some e \<Rightarrow> e \<noteq> [])
                                   \<or> msg_isLoading lastMessage = Some True)
                            then deleteMessage (msg_id lastMessage) s
                            else s)
                  in sendMessage api (content lastUserMessage) no_options w s1)))"

subsection \<open>exportSession and importSession\<close>

text \<open>
  How \<^verbatim>\<open>JSON.stringify\<close> sees a message and a session of the store, and how a parsed
  value is read at the TypeScript type the source casts it to. The readers give \<open>None\<close>
  for a value that does not have the shape of the interface.
\<close>

fun role_name :: "MessageRole \<Rightarrow> jsstring" where
  "role_name User = js ''user''"
| "role_name Assistant = js ''assistant''"
| "role_name System = js ''system''"

definition role_of_name :: "jsstring \<Rightarrow> MessageRole option" where
  "role_of_name n =
     (if n = js ''user'' then Some User
      else if n = js ''assistant'' then Some Assistant
      else if n = js ''system'' then Some System
      else None)"

definition json_of_message :: "Message \<Rightarrow> json" where
  "json_of_message m =
     JObj ([(js ''id'', JStr (msg_id m)),
            (js ''role'', JStr (role_name (role m))),
            (js ''content'', JStr (content m)),
            (js ''timestamp'', JNum (timestamp m))]
           @ (case metadata m of None \<Rightarrow> [] | Some v \<Rightarrow> [(js ''metadata'', v)])
           @ (case msg_isLoading m of None \<Rightarrow> [] | Some b \<Rightarrow> [(js ''isLoading'', JBool b)])
           @ (case msg_error m of None \<Rightarrow> [] | Some e \<Rightarrow> [(js ''error'', JStr e)]))"

definition json_of_session :: "ChatSession \<Rightarrow> json" where
  "json_of_session cs =
     JObj ([(js ''id'', JStr (session_id cs)),
            (js ''messages'', JArr (map json_of_message (messages cs))),
            (js ''created_at'', JNum (created_at cs)),
            (js ''updated_at'', JNum (updated_at cs))]
           @ (case title cs of None \<Rightarrow> [] | Some t \<Rightarrow> [(js ''title'', JStr t)])
           @ (case location cs of None \<Rightarrow> [] | Some l \<Rightarrow> [(js ''location'', JStr l)]))"

fun optional_bool :: "json option \<Rightarrow> bool option option" where
  "optional_bool None = Some None"
| "optional_bool (Some (JBool b)) = Some (Some b)"
| "optional_bool (Some v) = None"

fun optional_string :: "json option \<Rightarrow> jsstring option option" where
  "optional_string None = Some None"
| "optional_string (Some (JStr x)) = Some (Some x)"
| "optional_string (Some v) = None"

definition message_of_json :: "json \<Rightarrow> Message option" where
  "message_of_json v =
     (case v of
        JObj kvs \<Rightarrow>
          (case (map_of kvs (js ''id''), map_of kvs (js ''role''),
                 map_of kvs (js ''content''), map_of kvs (js ''timestamp'')) of
             (Some (JStr i), Some (JStr r), Some (JStr c), Some (JNum t)) \<Rightarrow>
               (case (role_of_name r, optional_bool (map_of kvs (js ''isLoading'')),
                      optional_string (map_of kvs (js ''error''))) of
                  (Some ro, Some l, Some e) \<Rightarrow>
                    Some \<lparr>msg_id = i, role = ro, content = c, timestamp = t,
                          metadata = map_of kvs (js ''metadata''),
                          msg_isLoading = l, msg_error = e\<rparr>
                | _ \<Rightarrow> None)
           | _ \<Rightarrow> None)
      | _ \<Rightarrow> None)"

definition export_document :: "ChatSession \<Rightarrow> nat \<Rightarrow> json" where
  "export_document cs exported_at =
     JObj [(js ''session'', json_of_session cs),
           (js ''exported_at'', JNum (of_nat exported_at)),
           (js ''version'', JStr (js ''1.0''))]"

text \<open>
  \<^verbatim>\<open>JSON.stringify\<close> and \<^verbatim>\<open>JSON.parse\<close> belong to the platform and are parameters:
  \<open>stringify\<close> gives the text of a value, \<open>parse\<close> gives the value of a text or \<open>None\<close>
  when it throws a SyntaxError. Stringifying the export document does not throw.
\<close>

definition exportSession :: "(json \<Rightarrow> jsstring) \<Rightarrow> world \<Rightarrow> ChatState \<Rightarrow> jsstring option \<times> world" where
  "exportSession stringify w s =
     (case currentSession s of
        None \<Rightarrow> (None, w)
      | Some cs \<Rightarrow>
          (let (t, w1) = Date_now w
           in (Some (stringify (export_document cs t)), w1)))"

text \<open>
  The result is \<open>Some\<close> of the new world, the new store and the returned boolean. It is
  \<open>None\<close> only for a text that passes the source's check but whose session is not a
  \<^verbatim>\<open>ChatSession\<close>: the source stores such a value unchecked, and the typed store of this
  theory has no such state.
\<close>

definition import_failed :: "world \<Rightarrow> ChatState \<Rightarrow> (world \<times> ChatState \<times> bool) option" where
  "import_failed w s = Some (w, s\<lparr>error := Some (js ''Invalid session data format'')\<rparr>, False)"

definition importSession ::
  "(jsstring \<Rightarrow> json option) \<Rightarrow> jsstring \<Rightarrow> world \<Rightarrow> ChatState
     \<Rightarrow> (world \<times> ChatState \<times> bool) option" where
  "importSession parse data w s =
     (case parse data of
        None \<Rightarrow> import_failed w s
      | Some parsed \<Rightarrow>
          (case get_prop parsed ''session'' of
             Threw \<Rightarrow> import_failed w s
           | Returned parsed_session \<Rightarrow>
               if \<not> truthy (opt_prop parsed_session ''messages'')
                  \<or> \<not> isArray (opt_prop parsed_session ''messages'')
               then import_failed w s
               else
                 (case (opt_prop parsed_session ''messages'',
                        optional_string (opt_prop parsed_session ''title''),
                        optional_string (opt_prop parsed_session ''location'')) of
                    (Some (JArr ms), Some t, Some l) \<Rightarrow>
                      (case those (map message_of_json ms) of
                         None \<Rightarrow> None
                       | Some msgs \<Rightarrow>
                           (let (i, w1) = generateId w;
                                (c, w2) = Date_now w1;
                                (u, w3) = Date_now w2;
                                session = \<lparr>session_id = i, messages = msgs,
                                            created_at = of_nat c, updated_at = of_nat u,
                                            title = t, location = l\<rparr>
                            in Some (w3, s\<lparr>currentSession := Some session,
                                           sessions := session # sessions s,
                                           error := None\<rparr>, True)))
                  | _ \<Rightarrow> None)))"

section \<open>The transport client: streamChatMessage\<close>















section \<open>The connection monitor and the send orchestrator of useChat\<close>

text \<open>
  The platform's timers: \<^verbatim>\<open>setTimeout\<close> and \<^verbatim>\<open>setInterval\<close> hand out a new handle and
  keep the timer pending; \<^verbatim>\<open>clearTimeout\<close> and \<^verbatim>\<open>clearInterval\<close> drop it. Handles are
  positive, so a handle in the ref is truthy. The monitor holds the pending reconnect
  timeouts, the pending interval, the value of \<^verbatim>\<open>reconnectTimeoutRef.current\<close>, and the
  number of health probes in flight.
\<close>

record monitor =
  timeouts :: "nat list"
  interval :: "nat option"
  reconnectTimeoutRef :: "nat option"
  next_handle :: nat
  probes_in_flight :: nat

definition initial_monitor :: monitor where
  "initial_monitor =
     \<lparr>timeouts = [], interval = None, reconnectTimeoutRef = None, next_handle = 1,
      probes_in_flight = 0\<rparr>"

text \<open>\<^verbatim>\<open>checkConnection\<close> from the point where the awaited \<^verbatim>\<open>healthCheck\<close> has settled.\<close>

definition checkConnection :: "bool \<Rightarrow> monitor \<times> ChatState \<Rightarrow> monitor \<times> ChatState" where
  "checkConnection healthy ms =
     (let (m, s) = ms in
      if healthy then (m, clearError (setConnected True s))
      else
        (let s1 = setError (Some (js ''Connection lost. Attempting to reconnect...''))
                    (setConnected False s);
             h = next_handle m
         in (m\<lparr>timeouts := timeouts m @ [h], reconnectTimeoutRef := Some h,
                next_handle := Suc h\<rparr>, s1)))"

text \<open>
  What can happen to a mounted hook: the effect runs (\<open>Mount\<close>: a probe starts and the
  interval is set), a caller of the hook invokes \<^verbatim>\<open>checkConnection\<close> (\<open>CallerChecks\<close>, as
  the page does when it initialises), the interval or a pending timeout fires and starts
  a probe, a probe in flight settles, or the effect is cleaned up (\<open>Unmount\<close>). An event
  that cannot happen in the state leaves it as it is.
\<close>

datatype monitor_event =
    Mount
  | CallerChecks
  | IntervalFires
  | TimeoutFires nat
  | ProbeSettles bool
  | Unmount

fun monitor_step :: "monitor_event \<Rightarrow> monitor \<times> ChatState \<Rightarrow> monitor \<times> ChatState" where
  "monitor_step Mount (m, s) =
     (m\<lparr>probes_in_flight := Suc (probes_in_flight m),
        interval := Some (next_handle m),
        next_handle := Suc (next_handle m)\<rparr>, s)"
| "monitor_step CallerChecks (m, s) =
     (m\<lparr>probes_in_flight := Suc (probes_in_flight m)\<rparr>, s)"
| "monitor_step IntervalFires (m, s) =
     (if interval m = None then (m, s)
      else (m\<lparr>probes_in_flight := Suc (probes_in_flight m)\<rparr>, s))"
| "monitor_step (TimeoutFires h) (m, s) =
     (if h \<in> set (timeouts m)
      then (m\<lparr>timeouts := removeAll h (timeouts m),
              probes_in_flight := Suc (probes_in_flight m)\<rparr>, s)
      else (m, s))"
| "monitor_step (ProbeSettles healthy) (m, s) =
     (if probes_in_flight m = 0 then (m, s)
      else checkConnection healthy (m\<lparr>probes_in_flight := probes_in_flight m - 1\<rparr>, s))"
| "monitor_step Unmount (m, s) =
     (let m1 = m\<lparr>interval := None\<rparr>
      in (case reconnectTimeoutRef m1 of
            None \<Rightarrow> (m1, s)
          | Some h \<Rightarrow> (m1\<lparr>timeouts := removeAll h (timeouts m1)\<rparr>, s)))"

definition monitor_run :: "monitor_event list \<Rightarrow> monitor \<times> ChatState" where
  "monitor_run events = fold monitor_step events (initial_monitor, initial_state)"

text \<open>
  \<^verbatim>\<open>sendMessageWithRetry\<close>. The callback closes over the \<^verbatim>\<open>isConnected\<close> of the render
  that created it, so within one call that variable keeps its value, whatever
  \<^verbatim>\<open>checkConnection\<close> writes to the store meanwhile. The inputs are that value (\<open>captured\<close>),
  how the \<open>k\<close>-th call of \<^verbatim>\<open>sendMessage\<close> or \<^verbatim>\<open>streamMessage\<close> ends (\<open>None\<close>: it resolves,
  \<open>Some e\<close>: it rejects with \<open>e\<close>) and what the \<open>k\<close>-th health probe finds. The result is
  the list of actions taken, the error thrown to the caller if any, and the store's
  \<^verbatim>\<open>isConnected\<close> at the end. The value of the recursive call \<^verbatim>\<open>return attemptSend()\<close> is
  named before the test \<^verbatim>\<open>if (isConnected)\<close> that guards it; it is used only when the
  test holds.
\<close>

datatype action = Send | Wait nat | Probe

definition maxRetries :: nat where
  "maxRetries = 3"

function attemptSend ::
  "bool \<Rightarrow> (nat \<Rightarrow> 'e option) \<Rightarrow> (nat \<Rightarrow> bool) \<Rightarrow> bool \<Rightarrow> nat \<Rightarrow> action list \<times> 'e option \<times> bool" where
  "attemptSend captured outcome probe store_connected attempt =
     (case outcome attempt of
        None \<Rightarrow> ([Send], None, store_connected)
      | Some failure \<Rightarrow>
          if Suc attempt < maxRetries \<and> \<not> captured then
            (let (actions, thrown, connected) =
                   attemptSend captured outcome probe (probe attempt) (Suc attempt)
             in if captured
                then ([Send, Wait (2000 * Suc attempt), Probe] @ actions, thrown, connected)
                else ([Send, Wait (2000 * Suc attempt), Probe], Some failure, probe attempt))
          else ([Send], Some failure, store_connected))"
  by pat_completeness auto
termination
  by (relation "measure (\<lambda>(c, outcome, probe, sc, attempt). maxRetries - attempt)") auto

definition sendMessageWithRetry ::
  "bool \<Rightarrow> (nat \<Rightarrow> 'e option) \<Rightarrow> (nat \<Rightarrow> bool) \<Rightarrow> action list \<times> 'e option \<times> bool" where
  "sendMessageWithRetry captured outcome probe =
     attemptSend captured outcome probe captured 0"

section \<open>Observations and sample values\<close>

text \<open>The messages of the current session; none when there is no current session.\<close>

definition current_messages :: "ChatState \<Rightarrow> Message list" where
  "current_messages s = (case currentSession s of None \<Rightarrow> [] | Some cs \<Rightarrow> messages cs)"

text \<open>
  Two worlds for the examples. In both the clock stands still at 5, as within one
  millisecond or under a test's fake timers. In \<open>counting_world\<close> every random draw is
  new; in \<open>frozen_world\<close> the random source repeats itself, as a stubbed \<^verbatim>\<open>Math.random\<close>
  does.
\<close>

definition counting_world :: world where
  "counting_world =
     \<lparr>clock = (\<lambda>k. 5), random = decimal, clock_reads = 0, random_reads = 0\<rparr>"

definition frozen_world :: world where
  "frozen_world =
     \<lparr>clock = (\<lambda>k. 5), random = (\<lambda>k. js ''abc''), clock_reads = 0, random_reads = 0\<rparr>"

definition api_unreachable :: "ChatQuery \<Rightarrow> ChatResponse settled" where
  "api_unreachable query =
     Rejected_APIError (js ''Network error: Unable to connect to the server'')"

definition stream_unreachable :: "ChatQuery \<Rightarrow> stream_event list \<times> unit settled" where
  "stream_unreachable query =
     ([StreamError (js ''Network error: Unable to connect to the server'')], Resolved ())"

definition session_a :: ChatSession where
  "session_a = \<lparr>session_id = js ''a'', messages = [], created_at = 1, updated_at = 1,
                 title = None, location = None\<rparr>"

definition session_b :: ChatSession where
  "session_b = \<lparr>session_id = js ''b'', messages = [], created_at = 2, updated_at = 2,
                 title = None, location = None\<rparr>"

definition state_ab :: ChatState where
  "state_ab = \<lparr>currentSession = Some session_a, sessions = [session_b, session_a],
                isLoading = False, error = None, isConnected = True\<rparr>"

definition api_answers :: "ChatQuery \<Rightarrow> ChatResponse settled" where
  "api_answers query =
     Resolved \<lparr>r_query = q_text query, r_response = js ''ok'', r_confidence_score = 1,
               r_risk_assessment = JObj [(js ''overall_risk'', JStr (js ''low''))],
               r_context_sources = None, r_processing_time = None,
               r_session_id = q_session_id query, r_timestamp = None\<rparr>"

text \<open>A store whose last send failed: a user message, then the errored assistant message.\<close>

definition failed_user :: Message where
  "failed_user = \<lparr>msg_id = js ''m1'', role = User, content = js ''a'', timestamp = 10,
     metadata = None, msg_isLoading = None, msg_error = None\<rparr>"

definition failed_assistant :: Message where
  "failed_assistant = \<lparr>msg_id = js ''m2'', role = Assistant,
     content = js ''Sorry, I encountered an error. Please try again.'', timestamp = 11,
     metadata = None, msg_isLoading = Some False,
     msg_error = Some (js ''Network error: Unable to connect to the server'')\<rparr>"

definition failed_session :: ChatSession where
  "failed_session = \<lparr>session_id = js ''s1'', messages = [failed_user, failed_assistant],
     created_at = 9, updated_at = 12, title = None, location = None\<rparr>"

definition state_failed :: ChatState where
  "state_failed = \<lparr>currentSession = Some failed_session, sessions = [failed_session],
     isLoading = False,
     error = Some (js ''Network error: Unable to connect to the server''),
     isConnected = True\<rparr>"

text \<open>
  The store in which a send of \<^verbatim>\<open>"hi"\<close> awaits the transport, when it started from
  the initial store at clock reading 5 and the session, the user message and the
  placeholder were given the ids \<open>sid\<close>, \<open>uid\<close> and \<open>aid\<close>.
\<close>

definition awaiting_user :: "jsstring \<Rightarrow> Message" where
  "awaiting_user uid = \<lparr>msg_id = uid, role = User, content = js ''hi'', timestamp = 5,
     metadata = None, msg_isLoading = None, msg_error = None\<rparr>"

definition awaiting_placeholder :: "jsstring \<Rightarrow> Message" where
  "awaiting_placeholder aid = \<lparr>msg_id = aid, role = Assistant, content = [], timestamp = 5,
     metadata = None, msg_isLoading = Some True, msg_error = None\<rparr>"

definition awaiting_session :: "jsstring \<Rightarrow> jsstring \<Rightarrow> jsstring \<Rightarrow> ChatSession" where
  "awaiting_session sid uid aid =
     \<lparr>session_id = sid, messages = [awaiting_user uid, awaiting_placeholder aid],
      created_at = 5, updated_at = 5, title = None, location = None\<rparr>"

definition awaiting_state :: "jsstring \<Rightarrow> jsstring \<Rightarrow> jsstring \<Rightarrow> ChatState" where
  "awaiting_state sid uid aid =
     \<lparr>currentSession = Some (awaiting_session sid uid aid),
      sessions = [awaiting_session sid uid aid],
      isLoading = True, error = None, isConnected = True\<rparr>"

text \<open>The store after \<^verbatim>\<open>createSession\<close> on the initial store in \<open>frozen_world\<close>.\<close>

definition frozen_session :: ChatSession where
  "frozen_session = \<lparr>session_id = js ''5-abc'', messages = [], created_at = 5,
     updated_at = 5, title = None, location = None\<rparr>"

definition frozen_state :: ChatState where
  "frozen_state = \<lparr>currentSession = Some frozen_session, sessions = [frozen_session],
     isLoading = False, error = None, isConnected = True\<rparr>"

text \<open>
  Stand-ins for \<^verbatim>\<open>JSON.stringify\<close> and \<^verbatim>\<open>JSON.parse\<close> in the examples: every value is
  written as the text \<open>t\<close>, and \<open>t\<close> is read back as the value \<open>v\<close>; any other text is
  not JSON.
\<close>

definition stringify_as :: "jsstring \<Rightarrow> json \<Rightarrow> jsstring" where
  "stringify_as t v = t"

definition parse_as :: "jsstring \<Rightarrow> json \<Rightarrow> jsstring \<Rightarrow> json option" where
  "parse_as t v x = (if x = t then Some v else None)"

text \<open>The number that a string of decimal digits writes.\<close>

definition digits_value :: "jsstring \<Rightarrow> nat" where
  "digits_value ds = foldl (\<lambda>a c. 10 * a + (unat c - 48)) 0 ds"

text \<open>
  Observations of a stream: whether an event is terminal (the error or the completion
  callback), and the concatenation of the texts of the chunk events.
\<close>

fun is_terminal :: "stream_event \<Rightarrow> bool" where
  "is_terminal (Chunk t) = False"
| "is_terminal (Metadata md) = False"
| "is_terminal (StreamError e) = True"
| "is_terminal Complete = True"

fun chunk_text :: "stream_event \<Rightarrow> jsstring" where
  "chunk_text (Chunk t) = t"
| "chunk_text e = []"

definition chunk_texts :: "stream_event list \<Rightarrow> jsstring" where
  "chunk_texts evs = concat (map chunk_text evs)"

text \<open>
  The \<^verbatim>\<open>session.messages\<close> field of a parsed import payload; \<open>None\<close> when the payload
  has none (also when the payload is \<^verbatim>\<open>null\<close> or has no \<^verbatim>\<open>session\<close>).
\<close>

definition payload_messages :: "json \<Rightarrow> json option" where
  "payload_messages parsed =
     (case get_prop parsed ''session'' of
        Threw \<Rightarrow> None
      | Returned parsed_session \<Rightarrow> opt_prop parsed_session ''messages'')"

text \<open>
  For the orchestrator: a send whose first attempt fails and whose later attempts would
  succeed, and a backend that every health probe finds healthy.
\<close>

definition fails_once :: "nat \<Rightarrow> jsstring option" where
  "fails_once k = (if k = 0 then Some (js ''request failed'') else None)"

definition probe_healthy :: "nat \<Rightarrow> bool" where
  "probe_healthy k = True"











section \<open>Properties\<close>

lemma filter_filter_same: "filter P (filter P xs) = filter P xs"
  by (induction xs) auto

text \<open>
  C9. \<^verbatim>\<open>deleteSession\<close> is idempotent: deleting the same id twice gives the state that
  deleting it once gives. Deleting an id that no session of the store carries (none in
  \<open>sessions\<close>, and not the current one) changes nothing, and a current session with the
  deleted id is cleared.
\<close>

theorem deleteSession_idempotent:
  "deleteSession sid (deleteSession sid s) = deleteSession sid s
   \<and> ((sid \<notin> session_id ` set (sessions s)
        \<and> (case currentSession s of None \<Rightarrow> True | Some cs \<Rightarrow> session_id cs \<noteq> sid))
       \<longrightarrow> deleteSession sid s = s)
   \<and> ((case currentSession s of None \<Rightarrow> False | Some cs \<Rightarrow> session_id cs = sid)
       \<longrightarrow> currentSession (deleteSession sid s) = None)"
proof (intro conjI impI)
  show "deleteSession sid (deleteSession sid s) = deleteSession sid s"
    by (simp add: deleteSession_def Let_def filter_filter_same split: option.splits)
next
  assume a: "sid \<notin> session_id ` set (sessions s)
             \<and> (case currentSession s of None \<Rightarrow> True | Some cs \<Rightarrow> session_id cs \<noteq> sid)"
  then have "filter (\<lambda>x. session_id x \<noteq> sid) (sessions s) = sessions s"
    by (auto intro: filter_True)
  with a show "deleteSession sid s = s"
    by (simp add: deleteSession_def Let_def split: option.splits)
next
  assume "case currentSession s of None \<Rightarrow> False | Some cs \<Rightarrow> session_id cs = sid"
  then show "currentSession (deleteSession sid s) = None"
    by (auto simp: deleteSession_def Let_def split: option.splits)
qed

theorem deleteSession_idempotent_witness:
  "deleteSession (js ''a'') (deleteSession (js ''a'') state_ab) = deleteSession (js ''a'') state_ab
   \<and> currentSession (deleteSession (js ''a'') state_ab) = None
   \<and> deleteSession (js ''c'') state_ab = state_ab"
  using deleteSession_idempotent [of "js ''a''" state_ab]
    deleteSession_idempotent [of "js ''c''" state_ab]
  by (simp add: state_ab_def session_a_def session_b_def js_def)

subsection \<open>Validation\<close>

lemma trim_empty_iff: "trim s = [] \<longleftrightarrow> list_all is_ws s"
  by (induction s) (auto simp: trim_def list_all_iff)

text \<open>
  C4. Content that is empty or only whitespace, or longer than 10000 code units, is
  rejected by \<^verbatim>\<open>sendMessage\<close> and by \<^verbatim>\<open>streamMessage\<close>: the store's error becomes the
  empty-message text (when the content trims to nothing) or else the too-long text, and
  nothing else changes. The state is otherwise the one before the call, so no message
  is appended and no session is created or modified; no reading of the clock or the
  random source is consumed; and no request is issued.
\<close>

theorem rejected_content_only_sets_error:
  assumes "trim c = [] \<or> length c > 10000"
  shows "sendMessage api c opts w s =
           (w, s\<lparr>error := Some (if trim c = [] then js ''Message cannot be empty''
                                 else js ''Message too long (max 10000 characters)'')\<rparr>, [])
         \<and> streamMessage sapi c opts w s =
           (w, s\<lparr>error := Some (if trim c = [] then js ''Message cannot be empty''
                                 else js ''Message too long (max 10000 characters)'')\<rparr>, [])"
  using assms
  by (auto simp: validateMessage_def sendMessage_def streamMessage_def start_exchange_def)

theorem rejected_content_only_sets_error_witness:
  "sendMessage api_unreachable (js ''  '') no_options counting_world state_ab =
     (counting_world, state_ab\<lparr>error := Some (js ''Message cannot be empty'')\<rparr>, [])
   \<and> streamMessage stream_unreachable (js ''  '') no_options counting_world state_ab =
     (counting_world, state_ab\<lparr>error := Some (js ''Message cannot be empty'')\<rparr>, [])
   \<and> sendMessage api_unreachable (replicate 10001 0x61) no_options counting_world state_ab =
     (counting_world,
      state_ab\<lparr>error := Some (js ''Message too long (max 10000 characters)'')\<rparr>, [])
   \<and> streamMessage stream_unreachable (replicate 10001 0x61) no_options counting_world state_ab =
     (counting_world,
      state_ab\<lparr>error := Some (js ''Message too long (max 10000 characters)'')\<rparr>, [])"
proof -
  have blank: "trim (js ''  '') = []"
    by (simp add: trim_empty_iff js_def is_ws_def)
  have long: "length (replicate 10001 (0x61 :: 16 word)) > 10000"
    by simp
  have not_blank: "trim (replicate 10001 (0x61 :: 16 word)) \<noteq> []"
    by (simp add: trim_empty_iff list_all_iff is_ws_def)
  show ?thesis
    using rejected_content_only_sets_error
            [of "js ''  ''" api_unreachable no_options counting_world state_ab stream_unreachable]
          rejected_content_only_sets_error
            [of "replicate 10001 0x61" api_unreachable no_options counting_world state_ab
                stream_unreachable]
          blank long not_blank
    by simp
qed

subsection \<open>What a send appends\<close>

lemma currentSession_updateMessage:
  "currentSession (updateMessage i u s) =
     (case currentSession s of
        None \<Rightarrow> None
      | Some cs \<Rightarrow>
          Some (cs\<lparr>messages :=
                  (case findIndex (\<lambda>m. msg_id m = i) (messages cs) of
                     None \<Rightarrow> messages cs
                   | Some k \<Rightarrow> (messages cs)[k := spread_message (messages cs ! k) u])\<rparr>))"
  by (simp add: updateMessage_def Let_def split: option.splits)

lemma length_current_messages_updateMessage:
  "length (current_messages (updateMessage i u s)) = length (current_messages s)"
  by (simp add: currentSession_updateMessage current_messages_def split: option.splits)

lemma length_current_messages_settle:
  "length (current_messages (snd (sendMessage_settle outcome c aid w s)))
     = length (current_messages s)"
  by (cases outcome)
     (simp_all add: sendMessage_settle_def Let_def split_def current_messages_def
        currentSession_updateMessage split: option.splits)

lemma current_messages_addMessage:
  "currentSession s \<noteq> None \<Longrightarrow>
   current_messages (snd (addMessage (data_of m) w s)) = current_messages s @ [m]"
  by (auto simp: addMessage_def Let_def split_def data_of_def or_else_def current_messages_def)

lemma currentSession_addMessage_None:
  "currentSession (snd (addMessage d w s)) = None \<longleftrightarrow> currentSession s = None"
  by (auto simp: addMessage_def Let_def split_def split: option.splits)

lemma createSession_current:
  "currentSession (snd (createSession w s)) \<noteq> None
   \<and> current_messages (snd (createSession w s)) = []"
  by (simp add: createSession_def Let_def split_def current_messages_def)

lemma current_messages_flags [simp]:
  "current_messages (isLoading_update f s) = current_messages s"
  "current_messages (error_update g s) = current_messages s"
  by (simp_all add: current_messages_def)

lemma start_exchange_accepts:
  assumes "validateMessage c = None"
  shows "\<exists>w1 s1 query u a.
           start_exchange c opts w s = Awaiting w1 s1 query (msg_id a)
           \<and> current_messages s1 = current_messages s @ [u, a]
           \<and> role u = User \<and> content u = trim c
           \<and> role a = Assistant \<and> content a = [] \<and> msg_isLoading a = Some True"
proof -
  obtain w1 s1 where p1:
    "(case currentSession s of None \<Rightarrow> createSession w s | Some cs \<Rightarrow> (w, s)) = (w1, s1)"
    by (cases "(case currentSession s of None \<Rightarrow> createSession w s | Some cs \<Rightarrow> (w, s))") auto
  have c1: "currentSession s1 \<noteq> None" and m1: "current_messages s1 = current_messages s"
    using p1 createSession_current[of w s]
    by (auto simp: current_messages_def split: option.splits)
  then obtain cs where cs: "currentSession s1 = Some cs" by auto
  show ?thesis
    using assms p1 cs c1 m1
    by (simp add: start_exchange_def Let_def split_def current_messages_addMessage
          currentSession_addMessage_None)
qed

text \<open>
  C5, as the code has it. Content that does not trim to nothing and has at most 10000
  code units passes validation. Before the request is issued (the state \<open>s1\<close> in which
  \<^verbatim>\<open>sendMessage\<close> awaits the transport) the current session's messages are the former
  ones followed by exactly two new ones: a user message holding the trimmed content,
  then an assistant placeholder with empty content and \<^verbatim>\<open>isLoading = true\<close>. However
  the request settles, the current session holds exactly as many messages afterwards;
  so a whole call of \<^verbatim>\<open>sendMessage\<close> adds two messages and issues one request.
\<close>

theorem sendMessage_appends_two:
  assumes "trim c \<noteq> []" and "length c \<le> 10000"
  shows "(case start_exchange c opts w s of
            Stopped w1 s1 \<Rightarrow> False
          | Awaiting w1 s1 query aid \<Rightarrow>
              (\<exists>u a. current_messages s1 = current_messages s @ [u, a]
                 \<and> role u = User \<and> content u = trim c
                 \<and> role a = Assistant \<and> content a = [] \<and> msg_isLoading a = Some True
                 \<and> msg_id a = aid)
              \<and> (\<forall>outcome.
                    length (current_messages (snd (sendMessage_settle outcome c aid w1 s1)))
                      = length (current_messages s) + 2))
         \<and> length (current_messages (fst (snd (sendMessage api c opts w s))))
             = length (current_messages s) + 2
         \<and> length (snd (snd (sendMessage api c opts w s))) = 1"
proof (intro conjI)
  have v: "validateMessage c = None"
    using assms by (simp add: validateMessage_def)
  from start_exchange_accepts[OF v, of opts w s] obtain w1 s1 query u a where
    e: "start_exchange c opts w s = Awaiting w1 s1 query (msg_id a)"
    and m: "current_messages s1 = current_messages s @ [u, a]"
    and r: "role u = User" "content u = trim c" "role a = Assistant" "content a = []"
           "msg_isLoading a = Some True"
    by blast
  show "case start_exchange c opts w s of
           Stopped w1 s1 \<Rightarrow> False
         | Awaiting w1 s1 query aid \<Rightarrow>
             (\<exists>u a. current_messages s1 = current_messages s @ [u, a]
                \<and> role u = User \<and> content u = trim c
                \<and> role a = Assistant \<and> content a = [] \<and> msg_isLoading a = Some True
                \<and> msg_id a = aid)
             \<and> (\<forall>outcome.
                   length (current_messages (snd (sendMessage_settle outcome c aid w1 s1)))
                     = length (current_messages s) + 2)"
    using m r by (simp add: e length_current_messages_settle)
  show "length (current_messages (fst (snd (sendMessage api c opts w s))))
           = length (current_messages s) + 2"
    using m by (simp add: sendMessage_def e split_def Let_def length_current_messages_settle)
  show "length (snd (snd (sendMessage api c opts w s))) = 1"
    by (simp add: sendMessage_def e split_def Let_def)
qed

theorem sendMessage_appends_two_witness:
  "trim (js '' hi '') = js ''hi'' \<and> length (js '' hi '') \<le> 10000
   \<and> (case start_exchange (js '' hi '') no_options counting_world state_ab of
         Stopped w1 s1 \<Rightarrow> False
       | Awaiting w1 s1 query aid \<Rightarrow>
           (\<exists>u a. current_messages s1 = current_messages state_ab @ [u, a]
              \<and> role u = User \<and> content u = trim (js '' hi '')
              \<and> role a = Assistant \<and> content a = [] \<and> msg_isLoading a = Some True
              \<and> msg_id a = aid)
           \<and> (\<forall>outcome.
                 length (current_messages
                           (snd (sendMessage_settle outcome (js '' hi '') aid w1 s1)))
                   = length (current_messages state_ab) + 2))
   \<and> length (current_messages
        (fst (snd (sendMessage api_answers (js '' hi '') no_options counting_world state_ab))))
       = length (current_messages state_ab) + 2
   \<and> length (snd (snd (sendMessage api_answers (js '' hi '') no_options counting_world
                            state_ab))) = 1"
proof -
  have t: "trim (js '' hi '') = js ''hi''"
    by (simp add: trim_def js_def is_ws_def)
  have h1: "trim (js '' hi '') \<noteq> []"
    by (simp add: t) (simp add: js_def)
  have h2: "length (js '' hi '') \<le> 10000"
    by (simp add: js_def)
  from sendMessage_appends_two
         [OF h1 h2, where opts = no_options and w = counting_world and s = state_ab
            and api = api_answers] t h2
  show ?thesis by blast
qed

text \<open>
  The claim as worded speaks of every non-empty content. A single space is not empty
  and is far below the limit, yet validation rejects it as an empty message and no
  message is appended.
\<close>

theorem sendMessage_blank_counterexample:
  "js '' '' \<noteq> [] \<and> length (js '' '') \<le> 10000
   \<and> sendMessage api_unreachable (js '' '') no_options counting_world initial_state =
       (counting_world, initial_state\<lparr>error := Some (js ''Message cannot be empty'')\<rparr>, [])
   \<and> current_messages
        (fst (snd (sendMessage api_unreachable (js '' '') no_options counting_world
                     initial_state))) = []"
  by (simp add: sendMessage_def start_exchange_def validateMessage_def trim_empty_iff
        is_ws_def js_def current_messages_def initial_state_def)

subsection \<open>The sample worlds\<close>

lemma generateId_frozen:
  "generateId (frozen_world\<lparr>clock_reads := a, random_reads := b\<rparr>)
     = (js ''5-abc'', frozen_world\<lparr>clock_reads := Suc a, random_reads := Suc b\<rparr>)"
  by (simp add: generateId_def Date_now_def Math_random36_def frozen_world_def js_def
        decimal.simps)

lemma Date_now_frozen:
  "Date_now (frozen_world\<lparr>clock_reads := a, random_reads := b\<rparr>)
     = (5, frozen_world\<lparr>clock_reads := Suc a, random_reads := b\<rparr>)"
  by (simp add: Date_now_def frozen_world_def)

lemma frozen_world_reads:
  "frozen_world = frozen_world\<lparr>clock_reads := 0, random_reads := 0\<rparr>"
  by (simp add: frozen_world_def)

lemma generateId_counting:
  "generateId (counting_world\<lparr>clock_reads := a, random_reads := b\<rparr>)
     = (js ''5-'' @ decimal b, counting_world\<lparr>clock_reads := Suc a, random_reads := Suc b\<rparr>)"
  by (simp add: generateId_def Date_now_def Math_random36_def counting_world_def js_def
        decimal.simps [of 5])

lemma Date_now_counting:
  "Date_now (counting_world\<lparr>clock_reads := a, random_reads := b\<rparr>)
     = (5, counting_world\<lparr>clock_reads := Suc a, random_reads := b\<rparr>)"
  by (simp add: Date_now_def counting_world_def)

lemma counting_world_reads:
  "counting_world = counting_world\<lparr>clock_reads := 0, random_reads := 0\<rparr>"
  by (simp add: counting_world_def)

lemma decimal_small:
  "decimal 0 = js ''0''" "decimal (Suc 0) = js ''1''" "decimal (Suc (Suc 0)) = js ''2''"
  by (simp_all add: decimal.simps js_def)

lemma valid_hi: "validateMessage (js ''hi'') = None" "trim (js ''hi'') = js ''hi''"
  by (simp_all add: validateMessage_def trim_def js_def is_ws_def)

lemmas start_eval =
  start_exchange_def valid_hi initial_state_def createSession_def addMessage_def data_of_def
  or_else_def or_keep_def updateSessionInArray_def spread_session_def no_session_updates_def
  no_options_def awaiting_state_def awaiting_session_def awaiting_user_def
  awaiting_placeholder_def Let_def

lemma start_frozen:
  "start_exchange (js ''hi'') no_options frozen_world initial_state =
     Awaiting (frozen_world\<lparr>clock_reads := 15, random_reads := 5\<rparr>)
       (awaiting_state (js ''5-abc'') (js ''5-abc'') (js ''5-abc''))
       \<lparr>q_text = js ''hi'', q_location = None, q_session_id = Some (js ''5-abc'')\<rparr>
       (js ''5-abc'')"
  by (subst frozen_world_reads)
     (simp add: start_eval generateId_frozen Date_now_frozen del: One_nat_def)

lemma start_counting:
  "start_exchange (js ''hi'') no_options counting_world initial_state =
     Awaiting (counting_world\<lparr>clock_reads := 15, random_reads := 5\<rparr>)
       (awaiting_state (js ''5-0'') (js ''5-1'') (js ''5-2''))
       \<lparr>q_text = js ''hi'', q_location = None, q_session_id = Some (js ''5-0'')\<rparr>
       (js ''5-2'')"
  by (subst counting_world_reads)
     (simp add: start_eval generateId_counting Date_now_counting decimal_small
        del: One_nat_def, simp add: js_def)

subsection \<open>Streaming\<close>

lemma findIndex_last:
  "\<forall>x \<in> set pre. \<not> P x \<Longrightarrow> P p \<Longrightarrow> findIndex P (pre @ [p]) = Some (length pre)"
  by (induction pre) auto

lemma current_messages_updateMessage_last:
  assumes "current_messages s = pre @ [p]" and "msg_id p = aid"
    and "aid \<notin> msg_id ` set pre"
  shows "current_messages (updateMessage aid u s) = pre @ [spread_message p u]"
proof -
  from assms(1) obtain cs where cs: "currentSession s = Some cs" "messages cs = pre @ [p]"
    by (auto simp: current_messages_def split: option.splits)
  have "\<forall>x \<in> set pre. msg_id x \<noteq> aid"
    using assms(3) by blast
  then have "findIndex (\<lambda>m. msg_id m = aid) (pre @ [p]) = Some (length pre)"
    using assms(2) by (intro findIndex_last) simp_all
  then show ?thesis
    using cs by (simp add: currentSession_updateMessage current_messages_def)
qed

lemma current_messages_updateMessage_first:
  assumes "current_messages s = p # rest" and "msg_id p = aid"
  shows "current_messages (updateMessage aid u s) = spread_message p u # rest"
proof -
  from assms(1) obtain cs where cs: "currentSession s = Some cs" "messages cs = p # rest"
    by (auto simp: current_messages_def split: option.splits)
  then show ?thesis
    using assms(2) by (simp add: currentSession_updateMessage current_messages_def)
qed

lemma stream_callback_step:
  assumes "current_messages s = pre @ [p]" and "msg_id p = aid"
    and "aid \<notin> msg_id ` set pre" and "\<not> is_terminal e"
    and "content p = acc" and "msg_isLoading p = Some True"
  shows "\<exists>p'. current_messages (snd (stream_callback aid e (acc, s))) = pre @ [p']
           \<and> msg_id p' = aid \<and> role p' = role p
           \<and> content p' = acc @ chunk_text e \<and> msg_isLoading p' = Some True
           \<and> fst (stream_callback aid e (acc, s)) = acc @ chunk_text e"
  using assms
  by (cases e)
     (simp_all add: Let_def current_messages_updateMessage_last spread_message_def
        no_updates_def or_else_def or_keep_def)

lemma stream_fold:
  assumes "list_all (\<lambda>e. \<not> is_terminal e) evs"
    and "current_messages s = pre @ [p]" and "msg_id p = aid"
    and "aid \<notin> msg_id ` set pre"
    and "content p = acc" and "msg_isLoading p = Some True"
  shows "\<exists>p'. current_messages (snd (fold (stream_callback aid) evs (acc, s))) = pre @ [p']
           \<and> msg_id p' = aid \<and> role p' = role p
           \<and> content p' = acc @ chunk_texts evs \<and> msg_isLoading p' = Some True
           \<and> fst (fold (stream_callback aid) evs (acc, s)) = acc @ chunk_texts evs"
  using assms
proof (induction evs arbitrary: s p acc)
  case Nil
  then show ?case by (simp add: chunk_texts_def)
next
  case (Cons e evs)
  from Cons.prems have ne: "\<not> is_terminal e" and rest: "list_all (\<lambda>e. \<not> is_terminal e) evs"
    by simp_all
  from stream_callback_step[OF Cons.prems(2,3,4) ne Cons.prems(5,6)]
  obtain p' where p':
    "current_messages (snd (stream_callback aid e (acc, s))) = pre @ [p']"
    "msg_id p' = aid" "role p' = role p"
    "content p' = acc @ chunk_text e" "msg_isLoading p' = Some True"
    "fst (stream_callback aid e (acc, s)) = acc @ chunk_text e"
    by blast
  obtain acc1 s1 where st: "stream_callback aid e (acc, s) = (acc1, s1)"
    by (cases "stream_callback aid e (acc, s)") auto
  with p' have a1: "acc1 = acc @ chunk_text e" and c1: "current_messages s1 = pre @ [p']"
    by simp_all
  from Cons.IH[OF rest c1 p'(2) Cons.prems(4) _ p'(5), of acc1] p'(4) a1
  obtain p'' where
    "current_messages (snd (fold (stream_callback aid) evs (acc1, s1))) = pre @ [p'']"
    "msg_id p'' = aid" "role p'' = role p'"
    "content p'' = acc1 @ chunk_texts evs" "msg_isLoading p'' = Some True"
    "fst (fold (stream_callback aid) evs (acc1, s1)) = acc1 @ chunk_texts evs"
    by auto
  then show ?case
    using st a1 p'(3) by (simp add: chunk_texts_def)
qed

lemma start_exchange_Awaiting:
  assumes "start_exchange c opts w s = Awaiting w1 s1 query aid"
  shows "\<exists>u a. current_messages s1 = current_messages s @ [u, a]
           \<and> role u = User \<and> content u = trim c \<and> msg_id a = aid
           \<and> role a = Assistant \<and> content a = [] \<and> msg_isLoading a = Some True"
proof -
  have v: "validateMessage c = None"
    using assms by (cases "validateMessage c") (simp_all add: start_exchange_def)
  from start_exchange_accepts[OF v, of opts w s] assms show ?thesis
    by auto
qed

text \<open>
  C6, as the code has it. Let \<^verbatim>\<open>streamMessage\<close> have reached the transport (state \<open>s1\<close>,
  placeholder id \<open>aid\<close>), and let no earlier message of the current session carry the
  id \<open>aid\<close>. After any sequence of chunk and metadata events, and before a terminal
  event, the last message of the current session is the assistant placeholder; its
  content is the concatenation of the chunk texts received so far, its \<^verbatim>\<open>isLoading\<close>
  is true, and the messages before it are unchanged.
\<close>

theorem streaming_placeholder_accumulates:
  assumes "start_exchange c opts w s = Awaiting w1 s1 query aid"
    and "aid \<notin> msg_id ` set (butlast (current_messages s1))"
    and "list_all (\<lambda>e. \<not> is_terminal e) evs"
  shows "current_messages (snd (stream_events aid evs s1)) \<noteq> []
         \<and> butlast (current_messages (snd (stream_events aid evs s1)))
             = butlast (current_messages s1)
         \<and> msg_id (last (current_messages (snd (stream_events aid evs s1)))) = aid
         \<and> role (last (current_messages (snd (stream_events aid evs s1)))) = Assistant
         \<and> content (last (current_messages (snd (stream_events aid evs s1)))) = chunk_texts evs
         \<and> msg_isLoading (last (current_messages (snd (stream_events aid evs s1)))) = Some True"
proof -
  from start_exchange_Awaiting[OF assms(1)] obtain u a where
    m: "current_messages s1 = (current_messages s @ [u]) @ [a]"
    and a: "msg_id a = aid" "role a = Assistant" "content a = []" "msg_isLoading a = Some True"
    by auto
  from assms(2) m have fresh: "aid \<notin> msg_id ` set (current_messages s @ [u])"
    by (simp add: butlast_append)
  from stream_fold[OF assms(3) m a(1) fresh a(3) a(4)] obtain p' where
    "current_messages (snd (stream_events aid evs s1)) = (current_messages s @ [u]) @ [p']"
    "msg_id p' = aid" "role p' = role a" "content p' = chunk_texts evs"
    "msg_isLoading p' = Some True"
    by (auto simp: stream_events_def)
  then show ?thesis
    using m a by (simp add: butlast_append)
qed

theorem streaming_placeholder_accumulates_witness:
  "start_exchange (js ''hi'') no_options counting_world initial_state =
     Awaiting (counting_world\<lparr>clock_reads := 15, random_reads := 5\<rparr>)
       (awaiting_state (js ''5-0'') (js ''5-1'') (js ''5-2''))
       \<lparr>q_text = js ''hi'', q_location = None, q_session_id = Some (js ''5-0'')\<rparr>
       (js ''5-2'')
   \<and> content (last (current_messages
        (snd (stream_events (js ''5-2'') [Chunk (js ''Hel''), Chunk (js ''lo'')]
                (awaiting_state (js ''5-0'') (js ''5-1'') (js ''5-2''))))))
       = js ''Hello''
   \<and> msg_isLoading (last (current_messages
        (snd (stream_events (js ''5-2'') [Chunk (js ''Hel''), Chunk (js ''lo'')]
                (awaiting_state (js ''5-0'') (js ''5-1'') (js ''5-2''))))))
       = Some True"
proof -
  have fresh: "js ''5-2'' \<notin> msg_id ` set (butlast (current_messages
                 (awaiting_state (js ''5-0'') (js ''5-1'') (js ''5-2''))))"
    by (simp add: current_messages_def awaiting_state_def awaiting_session_def
          awaiting_user_def js_def)
  have chunks: "list_all (\<lambda>e. \<not> is_terminal e) [Chunk (js ''Hel''), Chunk (js ''lo'')]"
    by simp
  have hello: "chunk_texts [Chunk (js ''Hel''), Chunk (js ''lo'')] = js ''Hello''"
    by (simp add: chunk_texts_def js_def)
  from streaming_placeholder_accumulates[OF start_counting fresh chunks] hello start_counting
  show ?thesis by simp
qed

text \<open>
  Without the condition on the placeholder's id the claim fails. In \<open>frozen_world\<close> the
  user message and the placeholder receive the same id; \<^verbatim>\<open>updateMessage\<close> finds the
  first message with that id, so the chunks \<^verbatim>\<open>"Hel"\<close> and \<^verbatim>\<open>"lo"\<close> overwrite the user
  message and the placeholder's content stays empty.
\<close>

theorem streaming_collision_counterexample:
  "start_exchange (js ''hi'') no_options frozen_world initial_state =
     Awaiting (frozen_world\<lparr>clock_reads := 15, random_reads := 5\<rparr>)
       (awaiting_state (js ''5-abc'') (js ''5-abc'') (js ''5-abc''))
       \<lparr>q_text = js ''hi'', q_location = None, q_session_id = Some (js ''5-abc'')\<rparr>
       (js ''5-abc'')
   \<and> map content (current_messages
        (snd (stream_events (js ''5-abc'') [Chunk (js ''Hel''), Chunk (js ''lo'')]
                (awaiting_state (js ''5-abc'') (js ''5-abc'') (js ''5-abc'')))))
       = [js ''Hello'', []]
   \<and> map role (current_messages
        (snd (stream_events (js ''5-abc'') [Chunk (js ''Hel''), Chunk (js ''lo'')]
                (awaiting_state (js ''5-abc'') (js ''5-abc'') (js ''5-abc'')))))
       = [User, Assistant]"
proof -
  have m0: "current_messages (awaiting_state (js ''5-abc'') (js ''5-abc'') (js ''5-abc''))
              = awaiting_user (js ''5-abc'') # [awaiting_placeholder (js ''5-abc'')]"
    by (simp add: current_messages_def awaiting_state_def awaiting_session_def)
  have i0: "msg_id (awaiting_user (js ''5-abc'')) = js ''5-abc''"
    by (simp add: awaiting_user_def)
  note m1 = current_messages_updateMessage_first[OF m0 i0]
  have i1: "msg_id (spread_message (awaiting_user (js ''5-abc'')) u) = js ''5-abc''"
    if "u_id u = None" for u
    using that by (simp add: spread_message_def or_else_def awaiting_user_def)
  have m2: "current_messages (updateMessage (js ''5-abc'') u2
              (updateMessage (js ''5-abc'') u1
                 (awaiting_state (js ''5-abc'') (js ''5-abc'') (js ''5-abc''))))
            = spread_message (spread_message (awaiting_user (js ''5-abc'')) u1) u2
                # [awaiting_placeholder (js ''5-abc'')]"
    if "u_id u1 = None" for u1 u2
    by (rule current_messages_updateMessage_first[OF m1 i1[OF that]])
  show ?thesis
    by (simp add: start_frozen stream_events_def Let_def m2 no_updates_def spread_message_def
          or_else_def or_keep_def awaiting_user_def awaiting_placeholder_def)
       (simp add: js_def)
qed

subsection \<open>Retrying the last message\<close>

lemma findIndex_Some:
  "findIndex P xs = Some k \<Longrightarrow> k < length xs \<and> P (xs ! k)"
  by (induction xs arbitrary: k) (auto split: if_splits)

lemma role_spread: "u_role u = None \<Longrightarrow> role (spread_message m u) = role m"
  by (simp add: spread_message_def or_else_def)

lemma map_role_update:
  "k < length xs \<Longrightarrow> role y = role (xs ! k) \<Longrightarrow> map role (xs[k := y]) = map role xs"
  by (simp add: map_update list_update_same_conv)

lemma map_role_updateMessage:
  assumes "u_role u = None"
  shows "map role (current_messages (updateMessage i u s)) = map role (current_messages s)"
proof (cases "currentSession s")
  case None
  then show ?thesis by (simp add: currentSession_updateMessage current_messages_def)
next
  case (Some cs)
  show ?thesis
  proof (cases "findIndex (\<lambda>m. msg_id m = i) (messages cs)")
    case None
    with Some show ?thesis by (simp add: currentSession_updateMessage current_messages_def)
  next
    case (Some k)
    from findIndex_Some[OF Some] have "k < length (messages cs)" by simp
    then show ?thesis
      using Some \<open>currentSession s = Some cs\<close> assms
      by (simp add: currentSession_updateMessage current_messages_def map_role_update role_spread)
  qed
qed

lemma map_role_settle:
  "map role (current_messages (snd (sendMessage_settle outcome c aid w s)))
     = map role (current_messages s)"
proof (cases outcome)
  case (Resolved r)
  define s1 where "s1 = updateMessage aid
      (no_updates\<lparr>u_content := Some (r_response r), u_isLoading := Some False,
                   u_metadata := Some (response_metadata r)\<rparr>) s"
  have r1: "map role (current_messages s1) = map role (current_messages s)"
    unfolding s1_def by (rule map_role_updateMessage) (simp add: no_updates_def)
  have "snd (sendMessage_settle outcome c aid w s) =
          (case currentSession s1 of
             None \<Rightarrow> s1\<lparr>isLoading := False\<rparr>
           | Some session \<Rightarrow>
               if length (filter (\<lambda>m. role m = User) (messages session)) = 1
               then (s1\<lparr>currentSession :=
                           Some (session\<lparr>title := Some (generateSessionTitle c),
                                         updated_at := of_nat (fst (Date_now w))\<rparr>),
                         sessions := updateSessionInArray (sessions s1) (session_id session)
                           (no_session_updates\<lparr>su_title := Some (generateSessionTitle c),
                              su_updated_at :=
                                Some (of_nat (fst (Date_now (snd (Date_now w)))))\<rparr>)\<rparr>)
                    \<lparr>isLoading := False\<rparr>
               else s1\<lparr>isLoading := False\<rparr>)"
    unfolding Resolved s1_def
    by (simp add: sendMessage_settle_def Let_def split_def split: option.splits)
  then have "map role (current_messages (snd (sendMessage_settle outcome c aid w s)))
               = map role (current_messages s1)"
    by (simp add: current_messages_def split: option.splits)
  with r1 show ?thesis by simp
next
  case (Rejected_APIError m)
  then show ?thesis
    by (simp add: sendMessage_settle_def map_role_updateMessage no_updates_def)
next
  case Rejected_other
  then show ?thesis
    by (simp add: sendMessage_settle_def map_role_updateMessage no_updates_def)
qed

lemma current_messages_deleteMessage:
  "current_messages (deleteMessage i s) = filter (\<lambda>m. msg_id m \<noteq> i) (current_messages s)"
  by (simp add: deleteMessage_def current_messages_def Let_def split: option.splits)

text \<open>
  C1, what the code does. The current session holds a user message followed by an
  errored assistant message (with different ids), and the user content is valid.
  \<^verbatim>\<open>retryLastMessage\<close> deletes the errored message and calls \<^verbatim>\<open>sendMessage\<close> with the
  user content, which issues one request and appends a new user message and a new
  assistant message. Once the request has settled, whatever its outcome, the session
  holds two user messages and one assistant message: the original user message is
  still there, so the user content appears twice.
\<close>

theorem retryLastMessage_resends:
  assumes "currentSession s = Some cs" and "messages cs = [u, a]"
    and "role u = User" and "role a = Assistant"
    and "msg_error a = Some e" and "e \<noteq> []"
    and "msg_id u \<noteq> msg_id a"
    and "trim (content u) \<noteq> []" and "length (content u) \<le> 10000"
  shows "map role (current_messages (fst (snd (retryLastMessage api w s))))
           = [User, User, Assistant]
         \<and> length (snd (snd (retryLastMessage api w s))) = 1"
proof -
  define s1 where "s1 = deleteMessage (msg_id a) s"
  have r: "retryLastMessage api w s = sendMessage api (content u) no_options w s1"
    using assms by (simp add: retryLastMessage_def s1_def)
  have m0: "current_messages s = [u, a]"
    using assms by (simp add: current_messages_def)
  have m1: "current_messages s1 = [u]"
    using assms(7) by (simp add: s1_def current_messages_deleteMessage m0)
  have v: "validateMessage (content u) = None"
    using assms by (simp add: validateMessage_def)
  from start_exchange_accepts[OF v, of no_options w s1] m1 obtain w2 s2 query u' a' where
    e: "start_exchange (content u) no_options w s1 = Awaiting w2 s2 query (msg_id a')"
    and m2: "current_messages s2 = [u, u', a']"
    and ro: "role u' = User" "role a' = Assistant"
    by auto
  show ?thesis
    using m2 ro assms(3)
    by (simp add: r sendMessage_def e split_def Let_def map_role_settle)
qed

theorem retryLastMessage_resends_witness:
  "map role (current_messages state_failed) = [User, Assistant]
   \<and> map role (current_messages
        (fst (snd (retryLastMessage api_answers counting_world state_failed))))
       = [User, User, Assistant]
   \<and> length (snd (snd (retryLastMessage api_answers counting_world state_failed))) = 1"
proof -
  have c: "currentSession state_failed = Some failed_session"
    by (simp add: state_failed_def)
  have m: "messages failed_session = [failed_user, failed_assistant]"
    by (simp add: failed_session_def)
  have e: "msg_error failed_assistant =
             Some (js ''Network error: Unable to connect to the server'')"
    by (simp add: failed_assistant_def)
  have ne: "js ''Network error: Unable to connect to the server'' \<noteq> []"
    by (simp add: js_def)
  have d: "msg_id failed_user \<noteq> msg_id failed_assistant"
    by (simp add: failed_user_def failed_assistant_def js_def)
  have t: "trim (content failed_user) \<noteq> []"
    by (simp add: failed_user_def trim_def js_def is_ws_def)
  have l: "length (content failed_user) \<le> 10000"
    by (simp add: failed_user_def js_def)
  have ru: "role failed_user = User" and ra: "role failed_assistant = Assistant"
    by (simp_all add: failed_user_def failed_assistant_def)
  from retryLastMessage_resends[OF c m ru ra e ne d t l, of api_answers counting_world]
  show ?thesis
    by (simp add: current_messages_def c m ru ra)
qed

subsection \<open>Generated ids\<close>

text \<open>
  An id is the decimal clock reading, a hyphen and the random suffix. The digits hold
  no hyphen, so two ids are equal only if both readings are.
\<close>

lemma digit_unat: "d < 10 \<Longrightarrow> unat (of_nat (48 + d) :: 16 word) = 48 + d"
  by (subst unat_of_nat) simp

lemma digits_value_snoc:
  "digits_value (ds @ [c]) = 10 * digits_value ds + (unat c - 48)"
  by (simp add: digits_value_def)

lemma digits_value_decimal: "digits_value (decimal n) = n"
proof (induction n rule: decimal.induct)
  case (1 n)
  show ?case
  proof (cases "n < 10")
    case True
    have "decimal n = [of_nat (48 + n)]"
      using True by (subst decimal.simps) simp
    then show ?thesis
      using digit_unat[OF True] by (simp add: digits_value_def del: of_nat_add)
  next
    case False
    have d: "unat (of_nat (48 + n mod 10) :: 16 word) = 48 + n mod 10"
      by (rule digit_unat) simp
    have e: "decimal n = decimal (n div 10) @ [of_nat (48 + n mod 10)]"
      using False by (subst decimal.simps) simp
    from False 1 have "digits_value (decimal (n div 10)) = n div 10" by simp
    then show ?thesis
      unfolding e digits_value_snoc d by simp
  qed
qed

lemma decimal_inj:
  assumes "decimal m = decimal n"
  shows "m = n"
proof -
  from assms have "digits_value (decimal m) = digits_value (decimal n)"
    by (rule arg_cong)
  then show ?thesis
    by (simp only: digits_value_decimal)
qed

lemma digit_not_hyphen: "d < 10 \<Longrightarrow> (of_nat (48 + d) :: 16 word) \<noteq> 0x2D"
proof
  assume a: "d < 10" and b: "(of_nat (48 + d) :: 16 word) = 0x2D"
  from b have "unat (of_nat (48 + d) :: 16 word) = unat (0x2D :: 16 word)" by (rule arg_cong)
  with digit_unat[OF a] show False by simp
qed

lemma decimal_no_hyphen: "c \<in> set (decimal n) \<Longrightarrow> c \<noteq> 0x2D"
proof (induction n rule: decimal.induct)
  case (1 n)
  show ?case
  proof (cases "n < 10")
    case True
    have "decimal n = [of_nat (48 + n)]"
      using True by (subst decimal.simps) simp
    with 1(2) have "c = of_nat (48 + n)" by (simp del: of_nat_add)
    with digit_not_hyphen[OF True] show ?thesis by (simp del: of_nat_add)
  next
    case False
    have e: "decimal n = decimal (n div 10) @ [of_nat (48 + n mod 10)]"
      using False by (subst decimal.simps) simp
    have h: "(of_nat (48 + n mod 10) :: 16 word) \<noteq> 0x2D"
      by (rule digit_not_hyphen) simp
    from 1(2) have "c \<in> set (decimal (n div 10)) \<or> c = of_nat (48 + n mod 10)"
      unfolding e by (auto simp del: of_nat_add)
    then show ?thesis
      using 1(1)[OF False] h by (auto simp del: of_nat_add)
  qed
qed

lemma takeWhile_decimal:
  "takeWhile (\<lambda>c. c \<noteq> 0x2D) (decimal t @ js ''-'' @ r) = decimal t"
proof -
  have "js ''-'' @ r = 0x2D # r" by (simp add: js_def)
  moreover have "\<forall>c \<in> set (decimal t). c \<noteq> 0x2D"
    using decimal_no_hyphen by blast
  ultimately show ?thesis
    by simp
qed

lemma generated_id_inj:
  assumes "decimal t @ js ''-'' @ r = decimal t' @ js ''-'' @ r'"
  shows "t = t' \<and> r = r'"
proof -
  from assms have "takeWhile (\<lambda>c. c \<noteq> 0x2D) (decimal t @ js ''-'' @ r)
                     = takeWhile (\<lambda>c. c \<noteq> 0x2D) (decimal t' @ js ''-'' @ r')"
    by simp
  then have "decimal t = decimal t'" by (simp only: takeWhile_decimal)
  then have "t = t'" by (rule decimal_inj)
  with assms show ?thesis by simp
qed

lemma generateId_repeats_only_on_equal_readings:
  assumes "fst (generateId w) = decimal t0 @ js ''-'' @ r0"
  shows "clock w (clock_reads w) = t0 \<and> random w (random_reads w) = r0"
  using assms generated_id_inj [of "clock w (clock_reads w)" "random w (random_reads w)" t0 r0]
  by (simp add: generateId_def Date_now_def Math_random36_def)

subsection \<open>Import and export\<close>

text \<open>
  C10. A payload that is not JSON, or whose \<^verbatim>\<open>session.messages\<close> is absent or not a
  list, makes \<^verbatim>\<open>importSession\<close> return false; the store is the one before the call
  with only its error field set, so \<^verbatim>\<open>sessions\<close> and \<^verbatim>\<open>currentSession\<close> are untouched,
  and no reading of the clock or of the random source is consumed.
\<close>

theorem importSession_malformed:
  assumes "case parse data of
             None \<Rightarrow> True
           | Some parsed \<Rightarrow> \<not> isArray (payload_messages parsed)"
  shows "importSession parse data w s =
           Some (w, s\<lparr>error := Some (js ''Invalid session data format'')\<rparr>, False)"
  using assms
  by (auto simp: importSession_def import_failed_def payload_messages_def
           split: option.splits thrown.splits)

theorem importSession_malformed_witness:
  "importSession (parse_as (js ''null'') JNull) (js ''<html>'') counting_world state_ab =
     Some (counting_world,
           state_ab\<lparr>error := Some (js ''Invalid session data format'')\<rparr>, False)
   \<and> importSession (parse_as (js ''null'') JNull) (js ''null'') counting_world state_ab =
     Some (counting_world,
           state_ab\<lparr>error := Some (js ''Invalid session data format'')\<rparr>, False)
   \<and> importSession (parse_as (js ''session-without-messages'') (JObj [(js ''session'', JObj [])]))
        (js ''session-without-messages'') counting_world state_ab =
     Some (counting_world,
           state_ab\<lparr>error := Some (js ''Invalid session data format'')\<rparr>, False)
   \<and> importSession
        (parse_as (js ''messages-is-a-string'')
           (JObj [(js ''session'', JObj [(js ''messages'', JStr (js ''x''))])]))
        (js ''messages-is-a-string'') counting_world state_ab =
     Some (counting_world,
           state_ab\<lparr>error := Some (js ''Invalid session data format'')\<rparr>, False)"
proof -
  have h1: "case parse_as (js ''null'') JNull (js ''<html>'') of
              None \<Rightarrow> True | Some parsed \<Rightarrow> \<not> isArray (payload_messages parsed)"
    by (simp add: parse_as_def js_def)
  have h2: "case parse_as (js ''null'') JNull (js ''null'') of
              None \<Rightarrow> True | Some parsed \<Rightarrow> \<not> isArray (payload_messages parsed)"
    by (simp add: parse_as_def payload_messages_def)
  have h3: "case parse_as (js ''session-without-messages'') (JObj [(js ''session'', JObj [])])
                   (js ''session-without-messages'') of
              None \<Rightarrow> True | Some parsed \<Rightarrow> \<not> isArray (payload_messages parsed)"
    by (simp add: parse_as_def payload_messages_def)
  have h4: "case parse_as (js ''messages-is-a-string'')
                   (JObj [(js ''session'', JObj [(js ''messages'', JStr (js ''x''))])])
                   (js ''messages-is-a-string'') of
              None \<Rightarrow> True | Some parsed \<Rightarrow> \<not> isArray (payload_messages parsed)"
    by (simp add: parse_as_def payload_messages_def)
  from importSession_malformed
         [where parse = "parse_as (js ''null'') JNull" and data = "js ''<html>''", OF h1]
       importSession_malformed
         [where parse = "parse_as (js ''null'') JNull" and data = "js ''null''", OF h2]
       importSession_malformed
         [where parse = "parse_as (js ''session-without-messages'')
                           (JObj [(js ''session'', JObj [])])"
            and data = "js ''session-without-messages''", OF h3]
       importSession_malformed
         [where parse = "parse_as (js ''messages-is-a-string'')
                           (JObj [(js ''session'', JObj [(js ''messages'', JStr (js ''x''))])])"
            and data = "js ''messages-is-a-string''", OF h4]
  show ?thesis by blast
qed

lemma role_roundtrip: "role_of_name (role_name r) = Some r"
  by (cases r) (simp_all add: role_of_name_def js_def)

lemma message_roundtrip: "message_of_json (json_of_message m) = Some m"
  by (simp add: message_of_json_def json_of_message_def role_roundtrip js_def
        split: option.splits)

lemma messages_roundtrip: "those (map (message_of_json \<circ> json_of_message) ms) = Some ms"
  by (induction ms) (simp_all add: message_roundtrip)

lemma opt_prop_session_messages:
  "opt_prop (Some (json_of_session cs)) ''messages''
     = Some (JArr (map json_of_message (messages cs)))"
  by (simp add: json_of_session_def js_def)

lemma opt_prop_session_title:
  "optional_string (opt_prop (Some (json_of_session cs)) ''title'') = Some (title cs)"
  by (simp add: json_of_session_def js_def split: option.splits)

lemma opt_prop_session_location:
  "optional_string (opt_prop (Some (json_of_session cs)) ''location'') = Some (location cs)"
  by (simp add: json_of_session_def js_def split: option.splits)

lemma get_prop_document:
  "get_prop (export_document cs t) ''session'' = Returned (Some (json_of_session cs))"
  by (simp add: export_document_def js_def)

lemma import_document:
  assumes "parse data = Some (export_document cs t)"
  shows "importSession parse data w s =
           (let (i, w1) = generateId w;
                (c, w2) = Date_now w1;
                (u, w3) = Date_now w2;
                session = \<lparr>session_id = i, messages = messages cs,
                            created_at = of_nat c, updated_at = of_nat u,
                            title = title cs, location = location cs\<rparr>
            in Some (w3, s\<lparr>currentSession := Some session,
                           sessions := session # sessions s,
                           error := None\<rparr>, True))"
  using assms
  by (simp add: importSession_def get_prop_document opt_prop_session_messages
        opt_prop_session_title opt_prop_session_location messages_roundtrip
        Let_def split_def del: opt_prop.simps)

text \<open>
  C8, as the code has it. Let there be a current session \<open>cs\<close>, let \<^verbatim>\<open>JSON.parse\<close> read
  back the document that \<^verbatim>\<open>JSON.stringify\<close> wrote, and let the id that \<^verbatim>\<open>generateId\<close>
  returns at import differ from the id of \<open>cs\<close>. Then \<^verbatim>\<open>exportSession\<close> gives a text,
  \<^verbatim>\<open>importSession\<close> of that text returns true and clears the error, and the new current
  session has the messages (and title and location) of \<open>cs\<close>, carries the newly
  generated id, which is not the id of \<open>cs\<close>, and is put in front of \<open>sessions\<close>. By
  \<open>generateId_repeats_only_on_equal_readings\<close> an id that \<^verbatim>\<open>generateId\<close> made is returned
  again only at the same clock reading with the same random suffix.
\<close>

theorem export_import_roundtrip:
  assumes "currentSession s = Some cs"
    and "parse (stringify (export_document cs (fst (Date_now w)))) =
           Some (export_document cs (fst (Date_now w)))"
    and "fst (generateId (snd (Date_now w))) \<noteq> session_id cs"
  shows "case exportSession stringify w s of
           (None, w1) \<Rightarrow> False
         | (Some data, w1) \<Rightarrow>
             (case importSession parse data w1 s of
                None \<Rightarrow> False
              | Some (w2, s2, ok) \<Rightarrow>
                  ok \<and> error s2 = None
                  \<and> (case currentSession s2 of
                        None \<Rightarrow> False
                      | Some cs2 \<Rightarrow>
                          messages cs2 = messages cs
                          \<and> title cs2 = title cs \<and> location cs2 = location cs
                          \<and> session_id cs2 = fst (generateId w1)
                          \<and> session_id cs2 \<noteq> session_id cs
                          \<and> sessions s2 = cs2 # sessions s))"
  using assms
  by (simp add: exportSession_def split_def Let_def import_document)

theorem export_import_roundtrip_witness:
  "currentSession state_failed = Some failed_session
   \<and> fst (generateId (snd (Date_now counting_world))) = js ''5-0''
   \<and> session_id failed_session = js ''s1''
   \<and> (case exportSession (stringify_as (js ''exported'')) counting_world state_failed of
         (None, w1) \<Rightarrow> False
       | (Some data, w1) \<Rightarrow>
           (case importSession
                   (parse_as (js ''exported'')
                      (export_document failed_session (fst (Date_now counting_world))))
                   data w1 state_failed of
              None \<Rightarrow> False
            | Some (w2, s2, ok) \<Rightarrow>
                ok \<and> error s2 = None
                \<and> (case currentSession s2 of
                      None \<Rightarrow> False
                    | Some cs2 \<Rightarrow>
                        messages cs2 = messages failed_session
                        \<and> title cs2 = title failed_session
                        \<and> location cs2 = location failed_session
                        \<and> session_id cs2 = fst (generateId w1)
                        \<and> session_id cs2 \<noteq> session_id failed_session
                        \<and> sessions s2 = cs2 # sessions state_failed)))"
proof -
  have c: "currentSession state_failed = Some failed_session"
    by (simp add: state_failed_def)
  have p: "parse_as (js ''exported'')
             (export_document failed_session (fst (Date_now counting_world)))
             (stringify_as (js ''exported'')
                (export_document failed_session (fst (Date_now counting_world))))
           = Some (export_document failed_session (fst (Date_now counting_world)))"
    by (simp add: parse_as_def stringify_as_def)
  have g: "fst (generateId (snd (Date_now counting_world))) = js ''5-0''"
    by (subst counting_world_reads)
       (simp add: Date_now_counting generateId_counting decimal_small,
        simp add: js_def)
  have i: "session_id failed_session = js ''s1''"
    by (simp add: failed_session_def)
  have f: "fst (generateId (snd (Date_now counting_world))) \<noteq> session_id failed_session"
    unfolding g i by (simp add: js_def)
  from export_import_roundtrip
         [where stringify = "stringify_as (js ''exported'')"
            and parse = "parse_as (js ''exported'')
                           (export_document failed_session (fst (Date_now counting_world)))",
          OF c p f] c g i
  show ?thesis by blast
qed

text \<open>
  Nothing makes the new id differ from the old one. In \<open>frozen_world\<close> the session that
  \<^verbatim>\<open>createSession\<close> makes has the id \<^verbatim>\<open>5-abc\<close>; exporting it and importing the text gives
  a current session with the same id, and \<open>sessions\<close> then holds that id twice.
\<close>

theorem export_import_same_id_counterexample:
  "snd (createSession frozen_world initial_state) = frozen_state
   \<and> currentSession frozen_state = Some frozen_session
   \<and> exportSession (stringify_as (js ''exported''))
        (frozen_world\<lparr>clock_reads := 3, random_reads := 1\<rparr>) frozen_state
       = (Some (js ''exported''), frozen_world\<lparr>clock_reads := 4, random_reads := 1\<rparr>)
   \<and> importSession (parse_as (js ''exported'') (export_document frozen_session 5))
        (js ''exported'') (frozen_world\<lparr>clock_reads := 4, random_reads := 1\<rparr>) frozen_state
       = Some (frozen_world\<lparr>clock_reads := 7, random_reads := 2\<rparr>,
               frozen_state\<lparr>currentSession := Some frozen_session,
                             sessions := [frozen_session, frozen_session]\<rparr>,
               True)"
proof -
  have a: "snd (createSession frozen_world initial_state) = frozen_state"
    by (subst frozen_world_reads)
       (simp add: createSession_def generateId_frozen Date_now_frozen initial_state_def
          frozen_state_def frozen_session_def Let_def)
  have b: "currentSession frozen_state = Some frozen_session"
    by (simp add: frozen_state_def)
  have c: "exportSession (stringify_as (js ''exported''))
             (frozen_world\<lparr>clock_reads := 3, random_reads := 1\<rparr>) frozen_state
           = (Some (js ''exported''), frozen_world\<lparr>clock_reads := 4, random_reads := 1\<rparr>)"
    by (simp add: exportSession_def b Date_now_frozen stringify_as_def)
  have p: "parse_as (js ''exported'') (export_document frozen_session 5) (js ''exported'')
             = Some (export_document frozen_session 5)"
    by (simp add: parse_as_def)
  have d: "importSession (parse_as (js ''exported'') (export_document frozen_session 5))
             (js ''exported'') (frozen_world\<lparr>clock_reads := 4, random_reads := 1\<rparr>)
             frozen_state
           = Some (frozen_world\<lparr>clock_reads := 7, random_reads := 2\<rparr>,
                   frozen_state\<lparr>currentSession := Some frozen_session,
                                 sessions := [frozen_session, frozen_session]\<rparr>,
                   True)"
    by (subst import_document
                [where parse = "parse_as (js ''exported'') (export_document frozen_session 5)"
                   and data = "js ''exported''", OF p])
       (simp add: generateId_frozen Date_now_frozen frozen_state_def frozen_session_def
          Let_def)
  from a b c d show ?thesis by blast
qed

subsection \<open>The stream reader\<close>








subsection \<open>The connection monitor\<close>

lemma failed_probe_adds_timer:
  "timeouts (fst (checkConnection False (m, s))) = timeouts m @ [next_handle m]
   \<and> reconnectTimeoutRef (fst (checkConnection False (m, s))) = Some (next_handle m)"
  by (simp add: checkConnection_def Let_def)

text \<open>
  C2, what the code does. The effect mounts and the page calls \<^verbatim>\<open>checkConnection\<close> as
  well; both probes fail before any timer fires. Each failure calls \<^verbatim>\<open>setTimeout\<close> and
  overwrites the ref without clearing the timer it held: two reconnect timers are
  pending, and the clean-up on unmount clears only the one the ref holds.
\<close>

theorem two_failed_probes_two_timers:
  "timeouts (fst (monitor_run [Mount, CallerChecks, ProbeSettles False, ProbeSettles False]))
     = [2, 3]
   \<and> reconnectTimeoutRef
        (fst (monitor_run [Mount, CallerChecks, ProbeSettles False, ProbeSettles False]))
     = Some 3
   \<and> timeouts
        (fst (monitor_run [Mount, CallerChecks, ProbeSettles False, ProbeSettles False,
                           Unmount]))
     = [2]"
  by (simp add: monitor_run_def initial_monitor_def checkConnection_def Let_def)

subsection \<open>The send orchestrator\<close>

lemma attemptSend_once:
  "fst (attemptSend captured outcome probe sc attempt) =
     (case outcome attempt of
        None \<Rightarrow> [Send]
      | Some failure \<Rightarrow>
          if Suc attempt < maxRetries \<and> \<not> captured
          then [Send, Wait (2000 * Suc attempt), Probe] else [Send])
   \<and> fst (snd (attemptSend captured outcome probe sc attempt)) = outcome attempt"
  by (simp add: split_def Let_def split: option.splits)

lemma sendMessageWithRetry_never_retries:
  "length (filter (\<lambda>a. a = Send) (fst (sendMessageWithRetry captured outcome probe))) = 1
   \<and> fst (snd (sendMessageWithRetry captured outcome probe)) = outcome 0"
  by (simp add: sendMessageWithRetry_def attemptSend_once split: option.splits)

text \<open>
  C3, what the code does. The callback was created while the store said disconnected;
  the first attempt fails, the orchestrator waits 2000 and probes, and the probe finds
  the backend healthy (the store's \<^verbatim>\<open>isConnected\<close> becomes true). The test that guards
  the retry reads the captured variable, which is still false: the first failure is
  thrown and no second attempt is made, although it would have succeeded.
\<close>

theorem sendMessageWithRetry_gives_up_after_reconnect:
  "sendMessageWithRetry False fails_once probe_healthy =
     ([Send, Wait 2000, Probe], Some (js ''request failed''), True)"
  by (simp add: sendMessageWithRetry_def fails_once_def probe_healthy_def maxRetries_def
        split_def Let_def)

end
